theory Spec2Isabelle
  imports Complex_Main
begin

section \<open>Floating-point values\<close>

text \<open>
  Every price, indicator and Greek of the program is a Python or numpy float. The model keeps
  the three special values of IEEE arithmetic beside the numbers, because the program relies on
  them: a numpy division by zero is a value (an infinity or NaN), never an exception, and every
  ordered comparison with NaN is false. A finite value is a real number, and the two signed
  zeros are identified. The arithmetic of the backtest loop, on which its stop-loss and
  take-profit test depends, is rounded after every operation as binary64 arithmetic rounds
  (\<open>round64\<close> below); the indicators and the performance metrics are modelled in exact
  arithmetic.
\<close>

datatype pyfloat = Fin real | PInf | NInf | NaN

fun flt :: "pyfloat \<Rightarrow> pyfloat \<Rightarrow> bool" where
  "flt (Fin x) (Fin y) = (x < y)"
| "flt (Fin x) PInf = True"
| "flt NInf (Fin y) = True"
| "flt NInf PInf = True"
| "flt _ _ = False"

fun fle :: "pyfloat \<Rightarrow> pyfloat \<Rightarrow> bool" where
  "fle (Fin x) (Fin y) = (x \<le> y)"
| "fle (Fin x) PInf = True"
| "fle NInf (Fin y) = True"
| "fle NInf PInf = True"
| "fle PInf PInf = True"
| "fle NInf NInf = True"
| "fle _ _ = False"

definition fgt :: "pyfloat \<Rightarrow> pyfloat \<Rightarrow> bool" where
  "fgt a b = flt b a"

definition fge :: "pyfloat \<Rightarrow> pyfloat \<Rightarrow> bool" where
  "fge a b = fle b a"

fun fneg :: "pyfloat \<Rightarrow> pyfloat" where
  "fneg (Fin x) = Fin (- x)"
| "fneg PInf = NInf"
| "fneg NInf = PInf"
| "fneg NaN = NaN"

fun fadd :: "pyfloat \<Rightarrow> pyfloat \<Rightarrow> pyfloat" where
  "fadd (Fin x) (Fin y) = Fin (x + y)"
| "fadd NaN _ = NaN"
| "fadd _ NaN = NaN"
| "fadd PInf NInf = NaN"
| "fadd NInf PInf = NaN"
| "fadd PInf _ = PInf"
| "fadd NInf _ = NInf"
| "fadd (Fin x) PInf = PInf"
| "fadd (Fin x) NInf = NInf"

definition fsub :: "pyfloat \<Rightarrow> pyfloat \<Rightarrow> pyfloat" where
  "fsub a b = fadd a (fneg b)"

text \<open>The sign of a non-NaN value: \<open>1\<close>, \<open>0\<close> or \<open>-1\<close>.\<close>

fun fsgn :: "pyfloat \<Rightarrow> int" where
  "fsgn (Fin x) = (if x > 0 then 1 else if x < 0 then -1 else 0)"
| "fsgn PInf = 1"
| "fsgn NInf = -1"
| "fsgn NaN = 0"

definition inf_of_sign :: "int \<Rightarrow> pyfloat" where
  "inf_of_sign s = (if s > 0 then PInf else if s < 0 then NInf else NaN)"

fun fmul :: "pyfloat \<Rightarrow> pyfloat \<Rightarrow> pyfloat" where
  "fmul (Fin x) (Fin y) = Fin (x * y)"
| "fmul NaN _ = NaN"
| "fmul _ NaN = NaN"
| "fmul a b = inf_of_sign (fsgn a * fsgn b)"

text \<open>
  Division as numpy computes it: a non-zero number over zero is an infinity, zero over zero and
  infinity over infinity are NaN, a number over an infinity is zero.
\<close>

fun fdiv :: "pyfloat \<Rightarrow> pyfloat \<Rightarrow> pyfloat" where
  "fdiv (Fin x) (Fin y) = (if y = 0 then inf_of_sign (fsgn (Fin x)) else Fin (x / y))"
| "fdiv NaN _ = NaN"
| "fdiv _ NaN = NaN"
| "fdiv (Fin x) PInf = Fin 0"
| "fdiv (Fin x) NInf = Fin 0"
| "fdiv PInf (Fin y) = (if y < 0 then NInf else PInf)"
| "fdiv NInf (Fin y) = (if y < 0 then PInf else NInf)"
| "fdiv _ _ = NaN"

fun fsqrt :: "pyfloat \<Rightarrow> pyfloat" where
  "fsqrt (Fin x) = (if x < 0 then NaN else Fin (sqrt x))"
| "fsqrt PInf = PInf"
| "fsqrt _ = NaN"

definition notna :: "pyfloat \<Rightarrow> bool" where
  "notna x = (x \<noteq> NaN)"

subsection \<open>Rounding to binary64\<close>

text \<open>
  The nearest integer, a tie going to the even one.
\<close>

definition rne :: "real \<Rightarrow> int" where
  "rne x =
     (if x - of_int \<lfloor>x\<rfloor> < 1 / 2 then \<lfloor>x\<rfloor>
      else if 1 / 2 < x - of_int \<lfloor>x\<rfloor> then \<lfloor>x\<rfloor> + 1
      else if even \<lfloor>x\<rfloor> then \<lfloor>x\<rfloor> else \<lfloor>x\<rfloor> + 1)"

text \<open>
  The binary exponent of a number, not below that of the smallest normal number; the spacing
  of the binary64 numbers around it (53 significant bits); and the binary64 number nearest
  to it. A result of magnitude \<open>2 ^ 1024\<close> or more overflows to an infinity.
\<close>

definition binade :: "real \<Rightarrow> int" where
  "binade x = max \<lfloor>log 2 \<bar>x\<bar>\<rfloor> (- 1022)"

definition quantum :: "real \<Rightarrow> real" where
  "quantum x = 2 powi (binade x - 52)"

definition nearest :: "real \<Rightarrow> real" where
  "nearest x = of_int (rne (x / quantum x)) * quantum x"

definition round64 :: "real \<Rightarrow> pyfloat" where
  "round64 x =
     (if x = 0 then Fin 0
      else if 2 powi 1024 \<le> \<bar>nearest x\<bar> then (if 0 < x then PInf else NInf)
      else Fin (nearest x))"

fun fround :: "pyfloat \<Rightarrow> pyfloat" where
  "fround (Fin r) = round64 r"
| "fround PInf = PInf"
| "fround NInf = NInf"
| "fround NaN = NaN"

text \<open>The four operations of the machine: the exact result, rounded.\<close>

definition radd :: "pyfloat \<Rightarrow> pyfloat \<Rightarrow> pyfloat" where
  "radd a b = fround (fadd a b)"

definition rsub :: "pyfloat \<Rightarrow> pyfloat \<Rightarrow> pyfloat" where
  "rsub a b = fround (fsub a b)"

definition rmul :: "pyfloat \<Rightarrow> pyfloat \<Rightarrow> pyfloat" where
  "rmul a b = fround (fmul a b)"

definition rdiv :: "pyfloat \<Rightarrow> pyfloat \<Rightarrow> pyfloat" where
  "rdiv a b = fround (fdiv a b)"

section \<open>Dates and times\<close>

text \<open>
  A \<open>datetime\<close>: the day as an ordinal number and the time of day. Comparison is
  lexicographic, as Python's is.
\<close>

record datetime =
  ordinal :: nat
  hour :: nat
  minute :: nat
  second :: nat
  microsecond :: nat

definition time_lt :: "datetime \<Rightarrow> datetime \<Rightarrow> bool" where
  \<comment> \<open>\<open>a.time() < b.time()\<close>\<close>
  "time_lt a b =
     (hour a < hour b \<or> (hour a = hour b \<and>
       (minute a < minute b \<or> (minute a = minute b \<and>
         (second a < second b \<or> (second a = second b \<and> microsecond a < microsecond b))))))"

definition time_eq :: "datetime \<Rightarrow> datetime \<Rightarrow> bool" where
  "time_eq a b =
     (hour a = hour b \<and> minute a = minute b \<and> second a = second b
      \<and> microsecond a = microsecond b)"

definition datetime_le :: "datetime \<Rightarrow> datetime \<Rightarrow> bool" where
  \<comment> \<open>\<open>a <= b\<close> on two datetimes\<close>
  "datetime_le a b =
     (ordinal a < ordinal b \<or> (ordinal a = ordinal b \<and> (time_lt a b \<or> time_eq a b)))"

definition clock :: "nat \<Rightarrow> nat \<Rightarrow> nat \<Rightarrow> datetime" where
  \<comment> \<open>\<open>datetime.strptime("HH:MM:SS", "%H:%M:%S")\<close>; only its time of day is ever read\<close>
  "clock h m s = \<lparr>ordinal = 0, hour = h, minute = m, second = s, microsecond = 0\<rparr>"

section \<open>Errors\<close>

datatype error = ValueError | AttributeError | IndexError | UnboundLocalError

section \<open>Rows of the price table\<close>

text \<open>
  One row of the candle table with the two indicator columns; the timestamp is the index of
  the table, not a column.
\<close>

record candle =
  timestamp :: datetime
  open' :: pyfloat
  high :: pyfloat
  low :: pyfloat
  close :: pyfloat
  volume :: pyfloat
  rsi :: pyfloat
  ma :: pyfloat

text \<open>The backtester adds the simulated Greeks and the volatility index as further columns.\<close>

record bt_row = candle +
  call_delta :: pyfloat
  put_delta :: pyfloat
  call_gamma :: pyfloat
  put_gamma :: pyfloat
  call_theta :: pyfloat
  put_theta :: pyfloat
  call_vega :: pyfloat
  put_vega :: pyfloat
  india_vix :: pyfloat

section \<open>The live signal engine (strategy.py)\<close>

record leg =
  delta :: pyfloat
  gamma :: pyfloat
  theta :: pyfloat
  vega :: pyfloat

record greeks =
  call :: leg
  put :: leg

text \<open>
  The attributes that \<open>NiftyIntradayStrategy.__init__\<close> and \<open>is_trading_hours\<close> read
  from the environment, after conversion by \<open>float\<close> and \<open>int\<close>.
\<close>

record strategy =
  delta_threshold :: pyfloat
  gamma_threshold :: pyfloat
  theta_threshold :: pyfloat
  vega_threshold :: pyfloat
  vix_buy_threshold :: pyfloat
  vix_sell_threshold :: pyfloat
  TRADING_START_HOUR :: int
  TRADING_START_MINUTE :: int
  TRADING_END_HOUR :: int
  TRADING_END_MINUTE :: int

definition default_strategy :: strategy where
  "default_strategy =
     \<lparr>delta_threshold = Fin 0.5, gamma_threshold = Fin 0.1, theta_threshold = Fin 0.05,
      vega_threshold = Fin 0.1, vix_buy_threshold = Fin 20, vix_sell_threshold = Fin 30,
      TRADING_START_HOUR = 9, TRADING_START_MINUTE = 15,
      TRADING_END_HOUR = 15, TRADING_END_MINUTE = 30\<rparr>"

definition replace_hm :: "datetime \<Rightarrow> int \<Rightarrow> int \<Rightarrow> error + datetime" where
  \<comment> \<open>\<open>now.replace(hour=h, minute=m, second=0, microsecond=0)\<close>, which raises on a field
      out of range\<close>
  "replace_hm now h m =
     (if 0 \<le> h \<and> h \<le> 23 \<and> 0 \<le> m \<and> m \<le> 59
      then Inr (now\<lparr>hour := nat h, minute := nat m, second := 0, microsecond := 0\<rparr>)
      else Inl ValueError)"

definition is_trading_hours :: "strategy \<Rightarrow> datetime \<Rightarrow> error + bool" where
  "is_trading_hours self now =
     (case replace_hm now (TRADING_START_HOUR self) (TRADING_START_MINUTE self) of
        Inl e \<Rightarrow> Inl e
      | Inr start_time \<Rightarrow>
          (case replace_hm now (TRADING_END_HOUR self) (TRADING_END_MINUTE self) of
             Inl e \<Rightarrow> Inl e
           | Inr end_time \<Rightarrow> Inr (datetime_le start_time now \<and> datetime_le now end_time)))"

datatype signal = BUY | SELL

text \<open>The message that \<open>generate_signal\<close> writes to the log on the path it takes.\<close>

datatype log_message =
    Outside_trading_hours
  | Data_not_available
  | BUY_signal_generated
  | SELL_signal_generated
  | No_signal_generated
  | Error_generating_signal

definition all_notna :: "'a candle_scheme \<Rightarrow> bool" where
  \<comment> \<open>\<open>row.notna().all()\<close> over the columns of the row\<close>
  "all_notna r =
     (notna (open' r) \<and> notna (high r) \<and> notna (low r) \<and> notna (close r)
      \<and> notna (volume r) \<and> notna (rsi r) \<and> notna (ma r))"

definition delta_gamma_buy :: "strategy \<Rightarrow> greeks \<Rightarrow> 'a candle_scheme \<Rightarrow> bool" where
  "delta_gamma_buy self g latest_data =
     (fgt (delta (call g)) (delta_threshold self) \<and>
      fgt (gamma (call g)) (gamma_threshold self) \<and>
      fgt (rsi latest_data) (Fin 50) \<and>
      fgt (close latest_data) (ma latest_data))"

definition theta_vega_buy :: "strategy \<Rightarrow> greeks \<Rightarrow> bool" where
  "theta_vega_buy self g =
     (flt (theta (call g)) (theta_threshold self) \<and>
      fgt (vega (call g)) (vega_threshold self))"

definition delta_gamma_sell :: "strategy \<Rightarrow> greeks \<Rightarrow> 'a candle_scheme \<Rightarrow> bool" where
  "delta_gamma_sell self g latest_data =
     (flt (delta (put g)) (fneg (delta_threshold self)) \<and>
      flt (gamma (put g)) (fneg (gamma_threshold self)) \<and>
      flt (rsi latest_data) (Fin 50) \<and>
      flt (close latest_data) (ma latest_data))"

definition theta_vega_sell :: "strategy \<Rightarrow> greeks \<Rightarrow> bool" where
  "theta_vega_sell self g =
     (fgt (theta (put g)) (theta_threshold self) \<and>
      flt (vega (put g)) (fneg (vega_threshold self)))"

text \<open>
  \<open>generate_signal\<close> reads the clock and three attributes of the object: the Greeks
  (\<open>None\<close> or an empty dictionary when the fetch failed), the volatility index (\<open>None\<close>
  until a fetch has set it) and the candle table (\<open>None\<close> until a fetch has set it). The
  two guards at its head are outside its \<open>try\<close> block, so an exception there reaches the
  caller; inside the block every exception is logged and the result is \<open>None\<close>.
\<close>

definition generate_signal ::
  "strategy \<Rightarrow> datetime \<Rightarrow> greeks option \<Rightarrow> pyfloat option \<Rightarrow> candle list option
   \<Rightarrow> error + (signal option \<times> log_message)" where
  "generate_signal self now greeks_data vix historical_data =
     (case is_trading_hours self now of
        Inl e \<Rightarrow> Inl e
      | Inr hours \<Rightarrow>
          if \<not> hours then Inr (None, Outside_trading_hours)
          else (case greeks_data of
                  None \<Rightarrow> Inr (None, Data_not_available)
                | Some g \<Rightarrow>
                    (case historical_data of
                       None \<Rightarrow> Inl AttributeError
                     | Some rows \<Rightarrow>
                         if rows = [] then Inl IndexError
                         else if \<not> all_notna (last rows) then Inr (None, Data_not_available)
                         else (case vix of
                                 None \<Rightarrow> Inr (None, Error_generating_signal)
                               | Some v \<Rightarrow>
                                   if delta_gamma_buy self g (last rows) \<and> theta_vega_buy self g
                                      \<and> flt v (vix_buy_threshold self)
                                   then Inr (Some BUY, BUY_signal_generated)
                                   else if delta_gamma_sell self g (last rows)
                                      \<and> theta_vega_sell self g \<and> fgt v (vix_sell_threshold self)
                                   then Inr (Some SELL, SELL_signal_generated)
                                   else Inr (None, No_signal_generated)))))"

section \<open>The backtester's own signal check (backtesting.py)\<close>

text \<open>
  The entries of \<open>strategy_params\<close> and \<open>risk_management\<close> that come from the
  environment; the two RSI levels are fixed in the constructor.
\<close>

record params =
  DELTA_THRESHOLD :: pyfloat
  GAMMA_THRESHOLD :: pyfloat
  THETA_THRESHOLD :: pyfloat
  VEGA_THRESHOLD :: pyfloat
  VIX_THRESHOLD :: pyfloat
  STOP_LOSS_PERCENT :: pyfloat
  TAKE_PROFIT_PERCENT :: pyfloat

definition default_params :: params where
  "default_params =
     \<lparr>DELTA_THRESHOLD = Fin 0.5, GAMMA_THRESHOLD = Fin 0.1, THETA_THRESHOLD = Fin 0.05,
      VEGA_THRESHOLD = Fin 0.1, VIX_THRESHOLD = Fin 25,
      STOP_LOSS_PERCENT = Fin 1.0, TAKE_PROFIT_PERCENT = Fin 2.0\<rparr>"

definition RSI_OVERSOLD :: pyfloat where
  "RSI_OVERSOLD = Fin 30"

definition RSI_OVERBOUGHT :: pyfloat where
  "RSI_OVERBOUGHT = Fin 70"

definition delta_gamma_long :: "params \<Rightarrow> bt_row \<Rightarrow> bool" where
  "delta_gamma_long p current =
     (fgt (call_delta current) (DELTA_THRESHOLD p) \<and>
      fgt (call_gamma current) (GAMMA_THRESHOLD p))"

definition delta_gamma_short :: "params \<Rightarrow> bt_row \<Rightarrow> bool" where
  "delta_gamma_short p current =
     (flt (put_delta current) (fneg (DELTA_THRESHOLD p)) \<and>
      fgt (put_gamma current) (GAMMA_THRESHOLD p))"

definition theta_vega_long :: "params \<Rightarrow> bt_row \<Rightarrow> bool" where
  "theta_vega_long p current =
     (flt (call_theta current) (fneg (THETA_THRESHOLD p)) \<and>
      fgt (call_vega current) (VEGA_THRESHOLD p))"

definition theta_vega_short :: "params \<Rightarrow> bt_row \<Rightarrow> bool" where
  "theta_vega_short p current =
     (flt (put_theta current) (fneg (THETA_THRESHOLD p)) \<and>
      fgt (put_vega current) (VEGA_THRESHOLD p))"

definition rsi_long :: "bt_row \<Rightarrow> bool" where
  "rsi_long current = flt (rsi current) RSI_OVERSOLD"

definition rsi_short :: "bt_row \<Rightarrow> bool" where
  "rsi_short current = fgt (rsi current) RSI_OVERBOUGHT"

definition ma_long :: "bt_row \<Rightarrow> bool" where
  "ma_long current = fgt (close current) (ma current)"

definition ma_short :: "bt_row \<Rightarrow> bool" where
  "ma_short current = flt (close current) (ma current)"

definition vix_filter :: "params \<Rightarrow> bt_row \<Rightarrow> bool" where
  "vix_filter p current = flt (india_vix current) (VIX_THRESHOLD p)"

definition long_signal :: "params \<Rightarrow> bt_row \<Rightarrow> bool" where
  "long_signal p current =
     (delta_gamma_long p current \<and> theta_vega_long p current \<and> rsi_long current
      \<and> ma_long current \<and> vix_filter p current)"

definition short_signal :: "params \<Rightarrow> bt_row \<Rightarrow> bool" where
  "short_signal p current =
     (delta_gamma_short p current \<and> theta_vega_short p current \<and> rsi_short current
      \<and> ma_short current \<and> vix_filter p current)"

definition check_strategy_signal :: "params \<Rightarrow> bt_row \<Rightarrow> int" where
  "check_strategy_signal p current =
     (if long_signal p current then 1 else if short_signal p current then -1 else 0)"

section \<open>The backtest loop (backtesting.py, \<open>run_backtest\<close>)\<close>

record trade =
  t_entry_time :: datetime
  exit_time :: datetime
  t_entry_price :: pyfloat
  exit_price :: pyfloat
  t_position :: string
  pnl :: pyfloat
  pnl_percent :: pyfloat
  exit_reason :: string

record equity_point =
  eq_timestamp :: datetime
  equity :: pyfloat

text \<open>
  The local variables of \<open>run_backtest\<close> and the two lists it appends to. \<open>entry_time\<close>
  is unbound until the first entry; reading it before that raises.
\<close>

record bt_state =
  capital :: pyfloat
  position :: int
  entry_price :: pyfloat
  entry_time :: "datetime option"
  trades :: "trade list"
  equity_curve :: "equity_point list"

definition outside_hours :: "datetime \<Rightarrow> bool" where
  \<comment> \<open>\<open>t.time() < 09:15:00 or t.time() > 15:15:00\<close>\<close>
  "outside_hours t = (time_lt t (clock 9 15 0) \<or> time_lt (clock 15 15 0) t)"

definition pnl_percent_of :: "pyfloat \<Rightarrow> pyfloat \<Rightarrow> int \<Rightarrow> pyfloat" where
  \<comment> \<open>\<open>((price / entry_price) - 1) * 100 * position\<close>\<close>
  "pnl_percent_of price entry pos =
     rmul (rmul (rsub (rdiv price entry) (Fin 1)) (Fin 100)) (Fin (of_int pos))"

definition trade_pnl_of :: "pyfloat \<Rightarrow> pyfloat \<Rightarrow> int \<Rightarrow> pyfloat" where
  \<comment> \<open>\<open>(price - entry_price) * position\<close>\<close>
  "trade_pnl_of price entry pos = rmul (rsub price entry) (Fin (of_int pos))"

definition side :: "int \<Rightarrow> string" where
  "side pos = (if pos = 1 then ''LONG'' else ''SHORT'')"

definition process_exit :: "params \<Rightarrow> bt_row \<Rightarrow> bt_state \<Rightarrow> error + bt_state" where
  "process_exit p current_data st =
     (if position st \<noteq> 0 then
        (let current_price = close current_data;
             pp = pnl_percent_of current_price (entry_price st) (position st)
         in if fle pp (fneg (STOP_LOSS_PERCENT p)) \<or> fge pp (TAKE_PROFIT_PERCENT p) then
              (case entry_time st of
                 None \<Rightarrow> Inl UnboundLocalError
               | Some et \<Rightarrow>
                   Inr (st\<lparr>capital :=
                              radd (capital st)
                                (trade_pnl_of current_price (entry_price st) (position st)),
                           trades := trades st @
                              [\<lparr>t_entry_time = et,
                                exit_time = timestamp current_data,
                                t_entry_price = entry_price st,
                                exit_price = current_price,
                                t_position = side (position st),
                                pnl = trade_pnl_of current_price (entry_price st) (position st),
                                pnl_percent = pp,
                                exit_reason = (if flt pp (Fin 0) then ''SL'' else ''TP'')\<rparr>],
                           position := 0\<rparr>))
            else Inr st)
      else Inr st)"

definition process_entry :: "int \<Rightarrow> bt_row \<Rightarrow> bt_state \<Rightarrow> bt_state" where
  "process_entry signal current_data st =
     (if position st = 0 \<and> signal \<noteq> 0
      then st\<lparr>position := signal, entry_price := close current_data,
              entry_time := Some (timestamp current_data)\<rparr>
      else st)"

definition update_equity :: "bt_row \<Rightarrow> bt_state \<Rightarrow> bt_state" where
  "update_equity current_data st =
     (let current_equity =
            (if position st \<noteq> 0
             then radd (capital st)
                    (trade_pnl_of (close current_data) (entry_price st) (position st))
             else capital st)
      in st\<lparr>equity_curve := equity_curve st @
               [\<lparr>eq_timestamp = timestamp current_data, equity = current_equity\<rparr>]\<rparr>)"

text \<open>One pass through the body of the loop: a bar outside the hours changes nothing.\<close>

definition process_bar :: "params \<Rightarrow> bt_row \<Rightarrow> bt_state \<Rightarrow> error + bt_state" where
  "process_bar p current_data st =
     (if outside_hours (timestamp current_data) then Inr st
      else (case process_exit p current_data st of
              Inl e \<Rightarrow> Inl e
            | Inr st1 \<Rightarrow>
                Inr (update_equity current_data
                       (process_entry (check_strategy_signal p current_data) current_data st1))))"

fun bar_loop :: "params \<Rightarrow> bt_state \<Rightarrow> bt_row list \<Rightarrow> error + bt_state" where
  "bar_loop p st [] = Inr st"
| "bar_loop p st (row # rows) =
     (case process_bar p row st of Inl e \<Rightarrow> Inl e | Inr st' \<Rightarrow> bar_loop p st' rows)"

definition close_at_end :: "bt_row list \<Rightarrow> bt_state \<Rightarrow> error + bt_state" where
  \<comment> \<open>the block after the loop; the variable \<open>position\<close> is not reset there\<close>
  "close_at_end price_data st =
     (if position st \<noteq> 0 then
        (let final_price = close (last price_data) in
         case entry_time st of
           None \<Rightarrow> Inl UnboundLocalError
         | Some et \<Rightarrow>
             Inr (st\<lparr>capital :=
                        radd (capital st) (trade_pnl_of final_price (entry_price st) (position st)),
                     trades := trades st @
                        [\<lparr>t_entry_time = et,
                          exit_time = timestamp (last price_data),
                          t_entry_price = entry_price st,
                          exit_price = final_price,
                          t_position = side (position st),
                          pnl = trade_pnl_of final_price (entry_price st) (position st),
                          pnl_percent = pnl_percent_of final_price (entry_price st) (position st),
                          exit_reason = ''END''\<rparr>]\<rparr>))
      else Inr st)"

definition initial_state :: "trade list \<Rightarrow> bt_row \<Rightarrow> bt_state" where
  \<comment> \<open>\<open>self.trades\<close> is what the object held before; the equity curve starts afresh\<close>
  "initial_state trades0 first_row =
     \<lparr>capital = Fin 100000, position = 0, entry_price = Fin 0, entry_time = None,
      trades = trades0,
      equity_curve = [\<lparr>eq_timestamp = timestamp first_row, equity = Fin 100000\<rparr>]\<rparr>"

text \<open>
  \<open>run_backtest\<close> up to the call of the performance metrics: the loop starts at the second
  row, and the first row is read before it (an empty table raises there).
\<close>

definition run_backtest :: "params \<Rightarrow> trade list \<Rightarrow> bt_row list \<Rightarrow> error + bt_state" where
  "run_backtest p trades0 price_data =
     (case price_data of
        [] \<Rightarrow> Inl IndexError
      | first_row # rest \<Rightarrow>
          (case bar_loop p (initial_state trades0 first_row) rest of
             Inl e \<Rightarrow> Inl e
           | Inr st \<Rightarrow> close_at_end price_data st))"

subsection \<open>The sequence of position states\<close>

text \<open>
  The values the variable \<open>position\<close> takes during the loop, in order: for every bar inside
  the hours its value after the exit block and its value after the entry block.
\<close>

fun position_trace :: "params \<Rightarrow> bt_state \<Rightarrow> bt_row list \<Rightarrow> int list" where
  "position_trace p st [] = []"
| "position_trace p st (row # rows) =
     (if outside_hours (timestamp row) then position_trace p st rows
      else (case process_exit p row st of
              Inl e \<Rightarrow> []
            | Inr st1 \<Rightarrow>
                position st1
                # position (process_entry (check_strategy_signal p row) row st1)
                # position_trace p
                    (update_equity row (process_entry (check_strategy_signal p row) row st1))
                    rows))"

text \<open>
  A run starts flat and is flat again once the block after the loop has closed what was open.
\<close>

definition position_states :: "params \<Rightarrow> bt_row list \<Rightarrow> int list" where
  "position_states p price_data =
     (case price_data of
        [] \<Rightarrow> []
      | first_row # rest \<Rightarrow> 0 # position_trace p (initial_state [] first_row) rest @ [0])"

fun opens :: "int list \<Rightarrow> nat" where
  "opens (a # b # xs) = (if a = 0 \<and> b \<noteq> 0 then 1 else 0) + opens (b # xs)"
| "opens _ = 0"

fun closes :: "int list \<Rightarrow> nat" where
  "closes (a # b # xs) = (if a \<noteq> 0 \<and> b = 0 then 1 else 0) + closes (b # xs)"
| "closes _ = 0"

fun only_through_flat :: "int list \<Rightarrow> bool" where
  "only_through_flat (a # b # xs) = ((a = b \<or> a = 0 \<or> b = 0) \<and> only_through_flat (b # xs))"
| "only_through_flat _ = True"

section \<open>Performance metrics (\<open>_calculate_performance_metrics\<close>)\<close>

definition total_trades :: "trade list \<Rightarrow> nat" where
  "total_trades ts = length ts"

definition winning_trades :: "trade list \<Rightarrow> nat" where
  "winning_trades ts = length (filter (\<lambda>t. fgt (pnl t) (Fin 0)) ts)"

definition losing_trades :: "trade list \<Rightarrow> nat" where
  "losing_trades ts = length (filter (\<lambda>t. fle (pnl t) (Fin 0)) ts)"

text \<open>
  The Sharpe ratio, for an equity curve of finite values. \<open>pct_change\<close> has no value at the
  first point; \<open>dropna\<close> removes it. The standard deviation is the sample one (divisor
  \<open>n - 1\<close>), so it is NaN for a single return.
\<close>

fun pct_change :: "real list \<Rightarrow> pyfloat list" where
  "pct_change [] = []"
| "pct_change (x # xs) =
     NaN # map (\<lambda>(a, b). fsub (fdiv (Fin b) (Fin a)) (Fin 1)) (zip (x # xs) xs)"

definition dropna :: "pyfloat list \<Rightarrow> pyfloat list" where
  "dropna xs = filter notna xs"

definition fsum :: "pyfloat list \<Rightarrow> pyfloat" where
  "fsum xs = foldl fadd (Fin 0) xs"

definition fmean :: "pyfloat list \<Rightarrow> pyfloat" where
  "fmean xs = fdiv (fsum xs) (Fin (real (length xs)))"

definition fstd :: "pyfloat list \<Rightarrow> pyfloat" where
  "fstd xs =
     (let m = fmean xs
      in fsqrt (fdiv (fsum (map (\<lambda>x. fmul (fsub x m) (fsub x m)) xs))
                     (Fin (real (length xs) - 1))))"

definition sharpe_ratio :: "real list \<Rightarrow> pyfloat" where
  "sharpe_ratio equity_values =
     (if length equity_values > 1 then
        (let daily_returns = dropna (pct_change equity_values)
         in if length daily_returns > 0
            then fdiv (fmul (Fin (sqrt 252)) (fmean daily_returns)) (fstd daily_returns)
            else Fin 0)
      else Fin 0)"

section \<open>The RSI (\<open>_calculate_rsi\<close>, and the same lines in \<open>calculate_indicators\<close>)\<close>









section \<open>Predicates used in the proofs\<close>

text \<open>
  What holds of the loop's variables at the head of every pass: the position is one of the
  three values, and an open position has its entry time bound.
\<close>

definition entry_bound :: "bt_state \<Rightarrow> bool" where
  "entry_bound st = (position st \<in> {-1, 0, 1} \<and> (position st \<noteq> 0 \<longrightarrow> entry_time st \<noteq> None))"

text \<open>
  The number of completed cycles in a sequence of position states: a cycle starts when the
  state leaves 0 and is complete when it is 0 again. The flag says whether a cycle is under way.
\<close>

fun cycles_from :: "bool \<Rightarrow> int list \<Rightarrow> nat" where
  "cycles_from b [] = 0"
| "cycles_from False (x # xs) = cycles_from (x \<noteq> 0) xs"
| "cycles_from True (x # xs) = (if x = 0 then 1 + cycles_from False xs else cycles_from True xs)"


section \<open>Concrete inputs\<close>

definition stamp :: "nat \<Rightarrow> nat \<Rightarrow> nat \<Rightarrow> datetime" where
  "stamp d h m = \<lparr>ordinal = d, hour = h, minute = m, second = 0, microsecond = 0\<rparr>"

text \<open>Greeks and a latest candle on which the live engine says SELL (with the index at 35).\<close>

definition ex_sell_greeks :: greeks where
  "ex_sell_greeks =
     \<lparr>call = \<lparr>delta = Fin 0, gamma = Fin 0, theta = Fin 0, vega = Fin 0\<rparr>,
      put = \<lparr>delta = Fin (- 0.6), gamma = Fin (- 0.2), theta = Fin 0.1, vega = Fin (- 0.2)\<rparr>\<rparr>"

definition ex_sell_candle :: candle where
  "ex_sell_candle =
     \<lparr>timestamp = stamp 1 10 0, open' = Fin 90, high = Fin 90, low = Fin 90, close = Fin 90,
      volume = Fin 1, rsi = Fin 40, ma = Fin 100\<rparr>"

text \<open>
  A row of the backtester's table whose Greeks and index pass both the long and the short
  filters, so that its close, RSI and moving average alone decide the signal.
\<close>

definition ex_row :: "datetime \<Rightarrow> pyfloat \<Rightarrow> real \<Rightarrow> real \<Rightarrow> bt_row" where
  "ex_row t c r m =
     \<lparr>timestamp = t, open' = c, high = c, low = c, close = c,
      volume = Fin 1, rsi = Fin r, ma = Fin m,
      call_delta = Fin 0.6, put_delta = Fin (- 0.6), call_gamma = Fin 0.2, put_gamma = Fin 0.2,
      call_theta = Fin (- 0.1), put_theta = Fin (- 0.1), call_vega = Fin 0.2, put_vega = Fin 0.2,
      india_vix = Fin 15\<rparr>"

definition ex_long_row :: bt_row where
  "ex_long_row = ex_row (stamp 1 10 15) (Fin 100) 20 90"

definition ex_short_row :: bt_row where
  "ex_short_row = ex_row (stamp 1 10 30) (Fin 98) 80 100"

text \<open>
  A long position entered at 100 and still open; a bar at 100.5, inside the thresholds; a bar
  after the hours at 90; a bar on the next morning at 98.5; and the state after the three.
\<close>

definition ex_long_state :: bt_state where
  "ex_long_state =
     \<lparr>capital = Fin 100000, position = 1, entry_price = Fin 100,
      entry_time = Some (stamp 1 10 15), trades = [],
      equity_curve = [\<lparr>eq_timestamp = stamp 1 10 0, equity = Fin 100000\<rparr>,
                      \<lparr>eq_timestamp = stamp 1 10 15, equity = Fin 100000\<rparr>]\<rparr>"

definition ex_hold_row :: bt_row where
  "ex_hold_row = ex_row (stamp 1 10 30) (Fin 100.5) 50 100"

definition ex_skipped_row :: bt_row where
  "ex_skipped_row = ex_row (stamp 1 15 45) (Fin 90) 50 100"

definition ex_stop_row :: bt_row where
  "ex_stop_row = ex_row (stamp 2 10 0) (Fin 98.5) 50 100"

definition ex_stop_trade :: trade where
  "ex_stop_trade =
     \<lparr>t_entry_time = stamp 1 10 15, exit_time = stamp 2 10 0,
      t_entry_price = Fin 100, exit_price = Fin 98.5, t_position = ''LONG'',
      pnl = Fin (- 1.5), pnl_percent = Fin (- (3377699720527875 / 2251799813685248)),
      exit_reason = ''SL''\<rparr>"

definition ex_stopped_state :: bt_state where
  "ex_stopped_state =
     \<lparr>capital = Fin 99998.5, position = 0, entry_price = Fin 100,
      entry_time = Some (stamp 1 10 15), trades = [ex_stop_trade],
      equity_curve = [\<lparr>eq_timestamp = stamp 1 10 0, equity = Fin 100000\<rparr>,
                      \<lparr>eq_timestamp = stamp 1 10 15, equity = Fin 100000\<rparr>,
                      \<lparr>eq_timestamp = stamp 1 10 30, equity = Fin 100000.5\<rparr>,
                      \<lparr>eq_timestamp = stamp 2 10 0, equity = Fin 99998.5\<rparr>]\<rparr>"

text \<open>
  A stop loss of 10 and a take profit of 15, and a bar at 115: the exact percentage from an
  entry at 100 would be 15, the machine's is just below.
\<close>

definition ex_wide_params :: params where
  "ex_wide_params =
     default_params\<lparr>STOP_LOSS_PERCENT := Fin 10, TAKE_PROFIT_PERCENT := Fin 15\<rparr>"

definition ex_boundary_row :: bt_row where
  "ex_boundary_row = ex_row (stamp 1 10 30) (Fin 115) 50 100"

text \<open>
  Three candles: no signal, a long entry at 100, and a last candle at 15:45, after the hours,
  that closes at 105.
\<close>

definition ex_open_at_end :: "bt_row list" where
  "ex_open_at_end =
     [ex_row (stamp 1 10 0) (Fin 100) 50 100, ex_long_row,
      ex_row (stamp 1 15 45) (Fin 105) 50 100]"

definition ex_open_at_end_loop :: bt_state where
  "ex_open_at_end_loop =
     \<lparr>capital = Fin 100000, position = 1, entry_price = Fin 100,
      entry_time = Some (stamp 1 10 15), trades = [],
      equity_curve = [\<lparr>eq_timestamp = stamp 1 10 0, equity = Fin 100000\<rparr>,
                      \<lparr>eq_timestamp = stamp 1 10 15, equity = Fin 100000\<rparr>]\<rparr>"

definition ex_open_at_end_result :: bt_state where
  "ex_open_at_end_result =
     ex_open_at_end_loop
       \<lparr>capital := Fin 100005,
        trades := [\<lparr>t_entry_time = stamp 1 10 15, exit_time = stamp 1 15 45,
                    t_entry_price = Fin 100, exit_price = Fin 105, t_position = ''LONG'',
                    pnl = Fin 5, pnl_percent = Fin (5629499534213125 / 1125899906842624),
                    exit_reason = ''END''\<rparr>]\<rparr>"

text \<open>
  Four candles: no signal, a long entry at 100, a bar at 98 that stops the long out and
  carries a short signal, and a last candle after the hours at 97.
\<close>

definition ex_two_cycles :: "bt_row list" where
  "ex_two_cycles =
     [ex_row (stamp 1 10 0) (Fin 100) 50 100, ex_long_row, ex_short_row,
      ex_row (stamp 1 15 45) (Fin 97) 50 100]"

definition ex_two_cycles_result :: bt_state where
  "ex_two_cycles_result =
     \<lparr>capital = Fin 99999, position = - 1, entry_price = Fin 98,
      entry_time = Some (stamp 1 10 30),
      trades = [\<lparr>t_entry_time = stamp 1 10 15, exit_time = stamp 1 10 30,
                  t_entry_price = Fin 100, exit_price = Fin 98, t_position = ''LONG'',
                  pnl = Fin (- 2),
                  pnl_percent = Fin (- (1125899906842625 / 562949953421312)),
                  exit_reason = ''SL''\<rparr>,
                \<lparr>t_entry_time = stamp 1 10 30, exit_time = stamp 1 15 45,
                  t_entry_price = Fin 98, exit_price = Fin 97, t_position = ''SHORT'',
                  pnl = Fin 1,
                  pnl_percent = Fin (2297754911923725 / 2251799813685248),
                  exit_reason = ''END''\<rparr>],
      equity_curve = [\<lparr>eq_timestamp = stamp 1 10 0, equity = Fin 100000\<rparr>,
                      \<lparr>eq_timestamp = stamp 1 10 15, equity = Fin 100000\<rparr>,
                      \<lparr>eq_timestamp = stamp 1 10 30, equity = Fin 99998\<rparr>]\<rparr>"

text \<open>Three candles: no signal, a long entry at 100, and a last candle whose close is NaN.\<close>

definition ex_nan_end :: "bt_row list" where
  "ex_nan_end =
     [ex_row (stamp 1 10 0) (Fin 100) 50 100, ex_long_row, ex_row (stamp 1 10 30) NaN 50 100]"

definition ex_nan_end_result :: bt_state where
  "ex_nan_end_result =
     \<lparr>capital = NaN, position = 1, entry_price = Fin 100, entry_time = Some (stamp 1 10 15),
      trades = [\<lparr>t_entry_time = stamp 1 10 15, exit_time = stamp 1 10 30,
                  t_entry_price = Fin 100, exit_price = NaN, t_position = ''LONG'',
                  pnl = NaN, pnl_percent = NaN, exit_reason = ''END''\<rparr>],
      equity_curve = [\<lparr>eq_timestamp = stamp 1 10 0, equity = Fin 100000\<rparr>,
                      \<lparr>eq_timestamp = stamp 1 10 15, equity = Fin 100000\<rparr>,
                      \<lparr>eq_timestamp = stamp 1 10 30, equity = NaN\<rparr>]\<rparr>"

text \<open>
  Three candles without a signal: the second has a NaN close, the third is dated a day before
  the second.
\<close>

definition ex_malformed :: "bt_row list" where
  "ex_malformed =
     [ex_row (stamp 1 10 0) (Fin 100) 50 100, ex_row (stamp 1 10 15) NaN 50 100,
      ex_row (stamp 0 10 30) (Fin 100) 50 100]"

definition ex_malformed_result :: bt_state where
  "ex_malformed_result =
     \<lparr>capital = Fin 100000, position = 0, entry_price = Fin 0, entry_time = None, trades = [],
      equity_curve = [\<lparr>eq_timestamp = stamp 1 10 0, equity = Fin 100000\<rparr>,
                      \<lparr>eq_timestamp = stamp 1 10 15, equity = Fin 100000\<rparr>,
                      \<lparr>eq_timestamp = stamp 0 10 30, equity = Fin 100000\<rparr>]\<rparr>"

definition ex_flat_trade :: trade where
  "ex_flat_trade =
     \<lparr>t_entry_time = stamp 1 10 15, exit_time = stamp 1 15 45,
      t_entry_price = Fin 100, exit_price = Fin 100, t_position = ''LONG'',
      pnl = Fin 0, pnl_percent = Fin 0, exit_reason = ''END''\<rparr>"

section \<open>Rounding to binary64: what the proofs use\<close>

subsection \<open>Rounding to an integer\<close>

lemma rne_of_int: "rne (of_int k) = k"
  by (simp add: rne_def)

lemma floor_bounds: "of_int \<lfloor>x\<rfloor> \<le> x \<and> x < of_int \<lfloor>x\<rfloor> + (1::real)"
  by linarith

lemma rne_floor: "\<lfloor>x\<rfloor> \<le> rne x \<and> rne x \<le> \<lfloor>x\<rfloor> + 1"
  by (simp add: rne_def)

lemma rne_half: "rne (of_int f + 1 / 2) = (if even f then f else f + 1)"
proof -
  have "\<lfloor>(of_int f + 1 / 2 :: real)\<rfloor> = f" by (simp add: floor_eq_iff)
  then show ?thesis by (simp add: rne_def)
qed

lemma rne_near:
  assumes "\<bar>x - of_int m\<bar> < 1 / 2"
  shows "rne x = m"
proof -
  define f where "f = \<lfloor>x\<rfloor>"
  have f: "of_int f \<le> x" "x < of_int f + 1"
    using floor_bounds [of x] by (simp_all add: f_def)
  from assms have m: "of_int m < x + 1 / 2" "x - 1 / 2 < of_int m"
    by linarith+
  have "(of_int f :: real) < of_int (m + 1)" using f m by simp
  then have lo: "f \<le> m" by (simp only: of_int_less_iff)
  have "(of_int m :: real) < of_int (f + 2)" using f m by simp
  then have hi: "m \<le> f + 1" by (simp only: of_int_less_iff)
  from lo hi consider "m = f" | "m = f + 1" by linarith
  then show ?thesis
  proof cases
    case 1
    with m have "x - of_int f < 1 / 2" by simp
    then show ?thesis using 1 by (simp add: rne_def f_def)
  next
    case 2
    with m have "1 / 2 < x - of_int f" by simp
    then show ?thesis using 2 by (simp add: rne_def f_def)
  qed
qed

lemma rne_error: "\<bar>x - of_int (rne x)\<bar> \<le> 1 / 2"
  using floor_bounds [of x] by (auto simp: rne_def abs_le_iff)

lemma rne_mono:
  assumes "x \<le> y"
  shows "rne x \<le> rne y"
proof (cases "\<lfloor>x\<rfloor> = \<lfloor>y\<rfloor>")
  case True
  have d: "x - of_int \<lfloor>x\<rfloor> \<le> y - of_int \<lfloor>x\<rfloor>" using assms by simp
  show ?thesis
    unfolding rne_def using True d by (auto simp: True [symmetric])
next
  case False
  with assms have "\<lfloor>x\<rfloor> < \<lfloor>y\<rfloor>" using floor_mono [of x y] by linarith
  with rne_floor [of x] rne_floor [of y] show ?thesis by linarith
qed

lemma rne_minus: "rne (- x) = - rne x"
proof (cases "\<bar>x - of_int (rne x)\<bar> < 1 / 2")
  case True
  then have "\<bar>- x - of_int (- rne x)\<bar> < 1 / 2" by (simp add: abs_if split: if_splits)
  then show ?thesis by (rule rne_near)
next
  case False
  with rne_error [of x] have e: "\<bar>x - of_int (rne x)\<bar> = 1 / 2" by linarith
  have "x = of_int \<lfloor>x\<rfloor> + 1 / 2"
    using e floor_bounds [of x] by (auto simp: rne_def abs_if split: if_splits) linarith+
  then obtain f where x: "x = of_int f + 1 / 2" by blast
  have "- x = of_int (- f - 1) + 1 / 2" by (simp add: x)
  then have "rne (- x) = (if even (- f - 1) then - f - 1 else - f - 1 + 1)"
    by (simp only: rne_half)
  moreover have "rne x = (if even f then f else f + 1)"
    by (simp only: x rne_half)
  ultimately show ?thesis by auto
qed

lemma rne_nonneg: "0 \<le> x \<Longrightarrow> 0 \<le> rne x"
  using rne_mono [of 0 x] rne_of_int [of 0] by simp


subsection \<open>The exponent and the nearest binary64 number\<close>

lemma two_powi_less: "(2::real) powi a < 2 powi b \<longleftrightarrow> a < b"
proof
  assume "(2::real) powi a < 2 powi b"
  show "a < b"
  proof (rule ccontr)
    assume "\<not> a < b"
    then have "b \<le> a" by simp
    then have "(2::real) powi b \<le> 2 powi a" by (intro power_int_increasing) simp_all
    with \<open>(2::real) powi a < 2 powi b\<close> show False by simp
  qed
next
  assume "a < b"
  then show "(2::real) powi a < 2 powi b" by (intro power_int_strict_increasing) simp_all
qed

lemma two_powi_le: "(2::real) powi a \<le> 2 powi b \<longleftrightarrow> a \<le> b"
  using two_powi_less [of b a] by (auto simp: not_less [symmetric])

lemma log2_floor_bounds:
  assumes "x \<noteq> 0"
  shows "2 powi \<lfloor>log 2 \<bar>x\<bar>\<rfloor> \<le> \<bar>x\<bar> \<and> \<bar>x\<bar> < 2 powi (\<lfloor>log 2 \<bar>x\<bar>\<rfloor> + 1)"
proof -
  have pos: "0 < \<bar>x\<bar>" using assms by simp
  have "2 powr of_int \<lfloor>log 2 \<bar>x\<bar>\<rfloor> \<le> \<bar>x\<bar> \<and> \<bar>x\<bar> < 2 powr of_int (\<lfloor>log 2 \<bar>x\<bar>\<rfloor> + 1)"
    using floor_log_eq_powr_iff [OF pos, of 2 "\<lfloor>log 2 \<bar>x\<bar>\<rfloor>"] by simp
  then show ?thesis by (simp only: powr_real_of_int' [of 2, simplified])
qed

lemma log2_floor_eq:
  assumes "2 powi k \<le> \<bar>x\<bar>" and "\<bar>x\<bar> < 2 powi (k + 1)"
  shows "\<lfloor>log 2 \<bar>x\<bar>\<rfloor> = k"
proof -
  have "0 < (2::real) powi k" by simp
  with assms(1) have pos: "0 < \<bar>x\<bar>" by linarith
  have "2 powr of_int k \<le> \<bar>x\<bar> \<and> \<bar>x\<bar> < 2 powr of_int (k + 1)"
    using assms by (simp only: powr_real_of_int' [of 2, simplified])
  then show ?thesis
    using floor_log_eq_powr_iff [OF pos, of 2 k] by simp
qed

lemma binade_minus: "binade (- x) = binade x"
  by (simp add: binade_def)

lemma binade_upper: "x \<noteq> 0 \<Longrightarrow> \<bar>x\<bar> < 2 powi (binade x + 1)"
proof -
  assume "x \<noteq> 0"
  then have "\<bar>x\<bar> < 2 powi (\<lfloor>log 2 \<bar>x\<bar>\<rfloor> + 1)" using log2_floor_bounds by blast
  also have "\<dots> \<le> 2 powi (binade x + 1)"
    by (simp add: two_powi_le binade_def)
  finally show ?thesis .
qed

lemma binade_lower: "x \<noteq> 0 \<Longrightarrow> - 1022 < binade x \<Longrightarrow> 2 powi binade x \<le> \<bar>x\<bar>"
  using log2_floor_bounds [of x] by (simp add: binade_def max_def split: if_splits)

lemma binade_mono:
  assumes "x \<noteq> 0" and "\<bar>x\<bar> \<le> \<bar>y\<bar>"
  shows "binade x \<le> binade y"
proof -
  have "log 2 \<bar>x\<bar> \<le> log 2 \<bar>y\<bar>" using assms by simp
  then have "\<lfloor>log 2 \<bar>x\<bar>\<rfloor> \<le> \<lfloor>log 2 \<bar>y\<bar>\<rfloor>" by (rule floor_mono)
  then show ?thesis by (simp add: binade_def)
qed

lemma quantum_pos: "0 < quantum x"
  by (simp add: quantum_def)

lemma quantum_minus: "quantum (- x) = quantum x"
  by (simp add: quantum_def binade_minus)

lemma nearest_minus: "nearest (- x) = - nearest x"
  by (simp add: nearest_def quantum_minus rne_minus)

lemma nearest_nonneg: "0 \<le> x \<Longrightarrow> 0 \<le> nearest x"
  using quantum_pos [of x] by (simp add: nearest_def rne_nonneg)

lemma nearest_nonpos: "x \<le> 0 \<Longrightarrow> nearest x \<le> 0"
  using nearest_nonneg [of "- x"] by (simp add: nearest_minus)

lemma quantum_scale:
  "2 powi 53 * quantum x = 2 powi (binade x + 1)"
  "2 powi 52 * quantum x = 2 powi binade x"
proof -
  have "(2::real) powi 53 * 2 powi (binade x - 52) = 2 powi (53 + (binade x - 52))"
    by (rule power_int_add [symmetric]) simp
  also have "53 + (binade x - 52) = binade x + 1" by simp
  finally show "2 powi 53 * quantum x = 2 powi (binade x + 1)"
    by (simp only: quantum_def)
  have "(2::real) powi 52 * 2 powi (binade x - 52) = 2 powi (52 + (binade x - 52))"
    by (rule power_int_add [symmetric]) simp
  also have "52 + (binade x - 52) = binade x" by simp
  finally show "2 powi 52 * quantum x = 2 powi binade x"
    by (simp only: quantum_def)
qed

lemma nearest_upper:
  assumes "0 < x"
  shows "nearest x \<le> 2 powi (binade x + 1)"
proof -
  have "x < 2 powi (binade x + 1)" using binade_upper [of x] assms by simp
  then have "x < 2 powi 53 * quantum x" by (simp only: quantum_scale)
  then have "x / quantum x < 2 powi 53"
    using quantum_pos [of x] by (simp add: divide_less_eq)
  then have "x / quantum x \<le> of_int (2 ^ 53)" by simp
  then have "rne (x / quantum x) \<le> rne (of_int (2 ^ 53))" by (rule rne_mono)
  then have "rne (x / quantum x) \<le> 2 ^ 53" by (simp only: rne_of_int)
  then have "(of_int (rne (x / quantum x)) :: real) \<le> of_int (2 ^ 53)"
    by (simp only: of_int_le_iff)
  then have "nearest x \<le> of_int (2 ^ 53) * quantum x"
    unfolding nearest_def using quantum_pos [of x] by (intro mult_right_mono) simp_all
  also have "(of_int (2 ^ 53) :: real) = 2 powi 53" by simp
  finally show ?thesis by (simp only: quantum_scale)
qed

lemma nearest_lower:
  assumes "0 < x" and "- 1022 < binade x"
  shows "2 powi binade x \<le> nearest x"
proof -
  have "2 powi binade x \<le> x" using binade_lower [of x] assms by simp
  then have "2 powi 52 * quantum x \<le> x" by (simp only: quantum_scale)
  then have "2 powi 52 \<le> x / quantum x"
    using quantum_pos [of x] by (simp add: le_divide_eq)
  then have "of_int (2 ^ 52) \<le> x / quantum x" by simp
  then have "rne (of_int (2 ^ 52)) \<le> rne (x / quantum x)" by (rule rne_mono)
  then have "2 ^ 52 \<le> rne (x / quantum x)" by (simp only: rne_of_int)
  then have "(of_int (2 ^ 52) :: real) \<le> of_int (rne (x / quantum x))"
    by (simp only: of_int_le_iff)
  then have "of_int (2 ^ 52) * quantum x \<le> nearest x"
    unfolding nearest_def using quantum_pos [of x] by (intro mult_right_mono) simp_all
  moreover have "(of_int (2 ^ 52) :: real) = 2 powi 52" by simp
  ultimately show ?thesis by (simp only: quantum_scale)
qed

lemma nearest_mono_pos:
  assumes "0 < x" and "x \<le> y"
  shows "nearest x \<le> nearest y"
proof -
  have b: "binade x \<le> binade y" using assms by (intro binade_mono) simp_all
  show ?thesis
  proof (cases "binade x = binade y")
    case True
    then have q: "quantum y = quantum x" by (simp add: quantum_def)
    have "x / quantum x \<le> y / quantum x"
      using assms quantum_pos [of x] by (simp add: divide_right_mono)
    then have "rne (x / quantum x) \<le> rne (y / quantum x)" by (rule rne_mono)
    then have "(of_int (rne (x / quantum x)) :: real) \<le> of_int (rne (y / quantum x))"
      by (simp only: of_int_le_iff)
    then show ?thesis
      unfolding nearest_def q using quantum_pos [of x] by (intro mult_right_mono) simp_all
  next
    case False
    with b have lt: "binade x + 1 \<le> binade y" by simp
    have y: "0 < y" using assms by simp
    have "- 1022 \<le> binade x" by (simp add: binade_def)
    with lt have "- 1022 < binade y" by simp
    from nearest_lower [OF y this] have "2 powi binade y \<le> nearest y" .
    moreover have "(2::real) powi (binade x + 1) \<le> 2 powi binade y"
      using lt by (simp only: two_powi_le)
    moreover note nearest_upper [OF assms(1)]
    ultimately show ?thesis by linarith
  qed
qed

lemma nearest_mono:
  assumes "x \<le> y"
  shows "nearest x \<le> nearest y"
proof -
  consider "0 < x" | "x \<le> 0" "0 \<le> y" | "y < 0" using assms by linarith
  then show ?thesis
  proof cases
    case 1
    then show ?thesis using assms by (rule nearest_mono_pos)
  next
    case 2
    then show ?thesis using nearest_nonpos [of x] nearest_nonneg [of y] by linarith
  next
    case 3
    then have "0 < - y" "- y \<le> - x" using assms by simp_all
    then have "nearest (- y) \<le> nearest (- x)" by (rule nearest_mono_pos)
    then show ?thesis by (simp add: nearest_minus)
  qed
qed

lemma round64_alt:
  "round64 x =
     (if 2 powi 1024 \<le> nearest x then PInf
      else if nearest x \<le> - (2 powi 1024) then NInf
      else Fin (nearest x))"
proof -
  define B :: real where "B = 2 powi 1024"
  have p: "0 < B" unfolding B_def by (rule zero_less_power_int) simp
  have z: "nearest 0 = 0" by (simp add: nearest_def rne_of_int [of 0, simplified])
  have r: "round64 x =
     (if x = 0 then Fin 0
      else if B \<le> \<bar>nearest x\<bar> then (if 0 < x then PInf else NInf)
      else Fin (nearest x))"
    by (simp only: round64_def B_def)
  have "round64 x =
     (if B \<le> nearest x then PInf else if nearest x \<le> - B then NInf else Fin (nearest x))"
  proof -
    consider "x = 0" | "0 < x" | "x < 0" by linarith
    then show ?thesis
    proof cases
      case 1
      show ?thesis unfolding r using 1 z p by simp
    next
      case 2
      show ?thesis unfolding r using 2 nearest_nonneg [of x] p by (simp add: abs_if)
    next
      case 3
      show ?thesis unfolding r using 3 nearest_nonpos [of x] p by (auto simp: abs_if)
    qed
  qed
  then show ?thesis by (simp only: B_def)
qed

lemma round64_mono: "x \<le> y \<Longrightarrow> fle (round64 x) (round64 y)"
  using nearest_mono [of x y] by (auto simp: round64_alt simp del: power_int_numeral)

lemma round64_minus: "round64 (- x) = fneg (round64 x)"
  by (auto simp: round64_def nearest_minus simp del: power_int_numeral)

subsection \<open>Values\<close>

lemma two_powi_neg: "(2::real) powi (- int n) = 1 / 2 ^ n"
  by (simp add: power_int_minus divide_simps)

lemma abs_div_pow2_le: "\<bar>a / 2 ^ n :: real\<bar> \<le> \<bar>a\<bar>"
proof -
  have "\<bar>a\<bar> / 2 ^ n \<le> \<bar>a\<bar> / 1"
    by (rule divide_left_mono) simp_all
  then show ?thesis by simp
qed

lemma big_bound: "(2::real) ^ 54 < 2 powi 1024"
proof -
  have "(2::real) powi 54 < 2 powi 1024" by (simp only: two_powi_less)
  then show ?thesis by (simp only: power_int_numeral)
qed

lemma round64_near:
  assumes lo: "2 ^ 52 \<le> \<bar>x\<bar> * 2 ^ n" and hi: "\<bar>x\<bar> * 2 ^ n < 2 ^ 53" and n: "n \<le> 1074"
    and m: "\<bar>x * 2 ^ n - of_int m\<bar> < 1 / 2"
  shows "round64 x = Fin (of_int m / 2 ^ n)"
proof -
  have x0: "x \<noteq> 0" using lo by auto
  have e1: "(2::real) powi (52 - int n) = 2 ^ 52 / 2 ^ n"
    by (simp add: power_int_diff)
  have e2: "(2::real) powi (52 - int n + 1) = 2 ^ 53 / 2 ^ n"
  proof -
    have "52 - int n + 1 = 53 - int n" by simp
    then show ?thesis by (simp add: power_int_diff)
  qed
  have "2 powi (52 - int n) \<le> \<bar>x\<bar>"
    unfolding e1 using lo by (simp add: divide_le_eq)
  moreover have "\<bar>x\<bar> < 2 powi (52 - int n + 1)"
    unfolding e2 using hi by (simp add: less_divide_eq)
  ultimately have "\<lfloor>log 2 \<bar>x\<bar>\<rfloor> = 52 - int n" by (rule log2_floor_eq)
  then have b: "binade x = 52 - int n" using n by (simp add: binade_def)
  have q: "quantum x = 1 / 2 ^ n"
    unfolding quantum_def b using two_powi_neg [of n] by simp
  have "rne (x / quantum x) = m" unfolding q using m by (intro rne_near) simp
  then have ne: "nearest x = of_int m / 2 ^ n" by (simp add: nearest_def q)
  have "\<bar>of_int m :: real\<bar> \<le> \<bar>x * 2 ^ n\<bar> + \<bar>x * 2 ^ n - of_int m\<bar>" by linarith
  also have "\<dots> < 2 ^ 53 + 1 / 2" using hi m by (simp add: abs_mult)
  also have "\<dots> < (2::real) ^ 54" by simp
  finally have "\<bar>of_int m :: real\<bar> < 2 ^ 54" .
  with abs_div_pow2_le [of "of_int m" n] have "\<bar>of_int m / 2 ^ n :: real\<bar> < 2 ^ 54"
    by linarith
  with big_bound have "\<not> 2 powi 1024 \<le> \<bar>nearest x\<bar>" unfolding ne by linarith
  with x0 ne show ?thesis by (simp only: round64_def if_False)
qed


lemma of_int_abs_less_pow: "\<bar>m\<bar> < 2 ^ 53 \<Longrightarrow> \<bar>of_int m :: real\<bar> < 2 ^ 53"
proof -
  assume "\<bar>m\<bar> < 2 ^ 53"
  then have "(of_int \<bar>m\<bar> :: real) < of_int (2 ^ 53)" by (simp only: of_int_less_iff)
  then show ?thesis by simp
qed

lemma round64_dyadic:
  assumes m: "\<bar>m\<bar> < 2 ^ 53" and n: "n \<le> 1074"
  shows "round64 (of_int m / 2 ^ n) = Fin (of_int m / 2 ^ n)"
proof (cases "m = 0")
  case True
  then show ?thesis by (simp add: round64_def)
next
  case False
  define x :: real where "x = of_int m / 2 ^ n"
  have x0: "x \<noteq> 0" using False by (simp add: x_def)
  have am: "\<bar>of_int m :: real\<bar> < 2 ^ 53" using m by (rule of_int_abs_less_pow)
  have ax: "\<bar>x\<bar> < 2 ^ 53"
    unfolding x_def using abs_div_pow2_le [of "of_int m" n] am by linarith
  have bl: "- 1022 \<le> binade x" by (simp add: binade_def)
  have bu: "binade x \<le> 52 - int n"
  proof (cases "- 1022 < binade x")
    case True
    from binade_lower [OF x0 True] have "2 powi binade x \<le> \<bar>x\<bar>" .
    also have "\<bar>x\<bar> = \<bar>of_int m\<bar> * 2 powi (- int n)"
      by (simp add: x_def two_powi_neg)
    also have "\<dots> < 2 ^ 53 * 2 powi (- int n)"
      using am by (intro mult_strict_right_mono) simp_all
    also have "(2::real) ^ 53 * 2 powi (- int n) = 2 powi 53 * 2 powi (- int n)" by simp
    also have "\<dots> = 2 powi (53 + (- int n))"
      by (rule power_int_add [symmetric]) simp
    finally have "binade x < 53 + (- int n)" by (simp only: two_powi_less)
    then show ?thesis by simp
  next
    case False
    with bl have "binade x = - 1022" by simp
    with n show ?thesis by simp
  qed
  then have k: "0 \<le> 52 - int n - binade x" by simp
  define j where "j = nat (52 - int n - binade x)"
  have "x / quantum x = of_int m * (2 powi (- int n) / 2 powi (binade x - 52))"
    by (simp add: x_def quantum_def two_powi_neg)
  also have "2 powi (- int n) / 2 powi (binade x - 52) = (2::real) powi (- int n - (binade x - 52))"
    by (rule power_int_diff [symmetric]) simp
  also have "- int n - (binade x - 52) = int j" using k by (simp add: j_def)
  finally have xq: "x / quantum x = of_int (m * 2 ^ j)" by simp
  have "rne (x / quantum x) = m * 2 ^ j" unfolding xq by (rule rne_of_int)
  then have "nearest x = (x / quantum x) * quantum x"
    unfolding nearest_def by (simp only: xq)
  then have ne: "nearest x = x" using quantum_pos [of x] by simp
  have "(2::real) ^ 53 < 2 ^ 54" by simp
  with big_bound ax have "\<not> 2 powi 1024 \<le> \<bar>nearest x\<bar>" unfolding ne by linarith
  with x0 ne show ?thesis unfolding x_def [symmetric] by (simp only: round64_def if_False)
qed

lemma round64_int: "\<bar>m\<bar> < 2 ^ 53 \<Longrightarrow> round64 (of_int m) = Fin (of_int m)"
  using round64_dyadic [of m 0] by simp

lemma round64_zero: "round64 0 = Fin 0"
  by (simp add: round64_def)

lemma round64_not_nan: "round64 x \<noteq> NaN"
  by (simp add: round64_def)

subsection \<open>The roundings of the concrete inputs\<close>

lemma round64_values:
  "round64 (5629499534213 / 1125899906842624) = Fin (5629499534213 / 1125899906842624)"
  "round64 (45035996273705 / 4503599627370496) = Fin (45035996273705 / 4503599627370496)"
  "round64 (91910196476949 / 9007199254740992) = Fin (91910196476949 / 9007199254740992)"
  "round64 (135107988821115 / 9007199254740992) = Fin (135107988821115 / 9007199254740992)"
  "round64 (45035996273705 / 2251799813685248) = Fin (45035996273705 / 2251799813685248)"
  "round64 (225179981368525 / 4503599627370496) = Fin (225179981368525 / 4503599627370496)"
  "round64 (337769972052787 / 2251799813685248) = Fin (337769972052787 / 2251799813685248)"
  "round64 (140737488355325 / 281474976710656) = Fin (140737488355325 / 281474976710656)"
  "round64 (1 / 2) = Fin (1 / 2)"
  "round64 (49 / 50) = Fin (2206763817411543 / 2251799813685248)"
  "round64 (197 / 200) = Fin (8872091265919877 / 9007199254740992)"
  "round64 (97 / 98) = Fin (8915289058264043 / 9007199254740992)"
  "round64 (99 / 100) = Fin (4458563631096791 / 4503599627370496)"
  "round64 1 = Fin 1"
  "round64 (1125899906842625 / 1125899906842624) = Fin (1125899906842625 / 1125899906842624)"
  "round64 (201 / 200) = Fin (1131529406376837 / 1125899906842624)"
  "round64 (2297754911923725 / 2251799813685248) = Fin (2297754911923725 / 2251799813685248)"
  "round64 (21 / 20) = Fin (4728779608739021 / 4503599627370496)"
  "round64 (23 / 20) = Fin (2589569785738035 / 2251799813685248)"
  "round64 (3 / 2) = Fin (3 / 2)"
  "round64 (3377699720527875 / 2251799813685248) = Fin (3377699720527875 / 2251799813685248)"
  "round64 2 = Fin 2"
  "round64 (1125899906842625 / 562949953421312) = Fin (1125899906842625 / 562949953421312)"
  "round64 5 = Fin 5"
  "round64 (5629499534213125 / 1125899906842624) = Fin (5629499534213125 / 1125899906842624)"
  "round64 (8444249301319675 / 562949953421312) = Fin (8444249301319675 / 562949953421312)"
  "round64 99998 = Fin 99998"
  "round64 (199997 / 2) = Fin (199997 / 2)"
  "round64 99999 = Fin 99999"
  "round64 100000 = Fin 100000"
  "round64 (200001 / 2) = Fin (200001 / 2)"
  "round64 100005 = Fin 100005"
proof -
  show "round64 (5629499534213 / 1125899906842624) = Fin (5629499534213 / 1125899906842624)"
    using round64_dyadic [of 5629499534213 50] by simp
  show "round64 (45035996273705 / 4503599627370496) = Fin (45035996273705 / 4503599627370496)"
    using round64_dyadic [of 45035996273705 52] by simp
  show "round64 (91910196476949 / 9007199254740992) = Fin (91910196476949 / 9007199254740992)"
    using round64_dyadic [of 91910196476949 53] by simp
  show "round64 (135107988821115 / 9007199254740992) = Fin (135107988821115 / 9007199254740992)"
    using round64_dyadic [of 135107988821115 53] by simp
  show "round64 (45035996273705 / 2251799813685248) = Fin (45035996273705 / 2251799813685248)"
    using round64_dyadic [of 45035996273705 51] by simp
  show "round64 (225179981368525 / 4503599627370496) = Fin (225179981368525 / 4503599627370496)"
    using round64_dyadic [of 225179981368525 52] by simp
  show "round64 (337769972052787 / 2251799813685248) = Fin (337769972052787 / 2251799813685248)"
    using round64_dyadic [of 337769972052787 51] by simp
  show "round64 (140737488355325 / 281474976710656) = Fin (140737488355325 / 281474976710656)"
    using round64_dyadic [of 140737488355325 48] by simp
  show "round64 (1 / 2) = Fin (1 / 2)"
    using round64_dyadic [of 1 1] by simp
  show "round64 (49 / 50) = Fin (2206763817411543 / 2251799813685248)"
    using round64_near [of "49 / 50" 53 8827055269646172] by simp
  show "round64 (197 / 200) = Fin (8872091265919877 / 9007199254740992)"
    using round64_near [of "197 / 200" 53 8872091265919877] by simp
  show "round64 (97 / 98) = Fin (8915289058264043 / 9007199254740992)"
    using round64_near [of "97 / 98" 53 8915289058264043] by simp
  show "round64 (99 / 100) = Fin (4458563631096791 / 4503599627370496)"
    using round64_near [of "99 / 100" 53 8917127262193582] by simp
  show "round64 1 = Fin 1"
    using round64_int [of 1] by simp
  show "round64 (1125899906842625 / 1125899906842624) = Fin (1125899906842625 / 1125899906842624)"
    using round64_dyadic [of 1125899906842625 50] by simp
  show "round64 (201 / 200) = Fin (1131529406376837 / 1125899906842624)"
    using round64_near [of "201 / 200" 52 4526117625507348] by simp
  show "round64 (2297754911923725 / 2251799813685248) = Fin (2297754911923725 / 2251799813685248)"
    using round64_dyadic [of 2297754911923725 51] by simp
  show "round64 (21 / 20) = Fin (4728779608739021 / 4503599627370496)"
    using round64_near [of "21 / 20" 52 4728779608739021] by simp
  show "round64 (23 / 20) = Fin (2589569785738035 / 2251799813685248)"
    using round64_near [of "23 / 20" 52 5179139571476070] by simp
  show "round64 (3 / 2) = Fin (3 / 2)"
    using round64_dyadic [of 3 1] by simp
  show "round64 (3377699720527875 / 2251799813685248) = Fin (3377699720527875 / 2251799813685248)"
    using round64_dyadic [of 3377699720527875 51] by simp
  show "round64 2 = Fin 2"
    using round64_int [of 2] by simp
  show "round64 (1125899906842625 / 562949953421312) = Fin (1125899906842625 / 562949953421312)"
    using round64_dyadic [of 1125899906842625 49] by simp
  show "round64 5 = Fin 5"
    using round64_int [of 5] by simp
  show "round64 (5629499534213125 / 1125899906842624) = Fin (5629499534213125 / 1125899906842624)"
    using round64_dyadic [of 5629499534213125 50] by simp
  show "round64 (8444249301319675 / 562949953421312) = Fin (8444249301319675 / 562949953421312)"
    using round64_dyadic [of 8444249301319675 49] by simp
  show "round64 99998 = Fin 99998"
    using round64_int [of 99998] by simp
  show "round64 (199997 / 2) = Fin (199997 / 2)"
    using round64_dyadic [of 199997 1] by simp
  show "round64 99999 = Fin 99999"
    using round64_int [of 99999] by simp
  show "round64 100000 = Fin 100000"
    using round64_int [of 100000] by simp
  show "round64 (200001 / 2) = Fin (200001 / 2)"
    using round64_dyadic [of 200001 1] by simp
  show "round64 100005 = Fin 100005"
    using round64_int [of 100005] by simp
qed

section \<open>Evaluation of the concrete inputs\<close>

lemmas float_defs = fgt_def fge_def fsub_def inf_of_sign_def notna_def

lemmas time_defs = stamp_def clock_def time_lt_def time_eq_def datetime_le_def outside_hours_def

lemmas live_defs =
  generate_signal_def is_trading_hours_def replace_hm_def all_notna_def
  delta_gamma_buy_def delta_gamma_sell_def theta_vega_buy_def theta_vega_sell_def
  default_strategy_def ex_sell_greeks_def ex_sell_candle_def

lemmas check_defs =
  check_strategy_signal_def long_signal_def short_signal_def
  delta_gamma_long_def delta_gamma_short_def theta_vega_long_def theta_vega_short_def
  rsi_long_def rsi_short_def ma_long_def ma_short_def vix_filter_def
  RSI_OVERSOLD_def RSI_OVERBOUGHT_def default_params_def
  ex_row_def ex_long_row_def ex_short_row_def ex_stop_row_def

lemmas run_defs =
  run_backtest_def initial_state_def process_bar_def process_exit_def process_entry_def
  update_equity_def close_at_end_def pnl_percent_of_def trade_pnl_of_def side_def Let_def
  radd_def rsub_def rmul_def rdiv_def round64_values round64_minus round64_zero

lemma live_sell_example:
  "generate_signal default_strategy (stamp 1 10 0) (Some ex_sell_greeks) (Some (Fin 35))
     (Some [ex_sell_candle]) = Inr (Some SELL, SELL_signal_generated)"
  by (simp add: live_defs float_defs time_defs)

lemma short_row_example: "check_strategy_signal default_params ex_short_row = - 1"
  by (simp add: check_defs float_defs)

lemma long_row_example: "check_strategy_signal default_params ex_long_row = 1"
  by (simp add: check_defs float_defs)

lemma open_at_end_loop_example:
  "bar_loop default_params (initial_state [] (ex_row (stamp 1 10 0) (Fin 100) 50 100))
     [ex_long_row, ex_row (stamp 1 15 45) (Fin 105) 50 100] = Inr ex_open_at_end_loop"
  by (simp add: ex_open_at_end_loop_def run_defs check_defs float_defs time_defs)

lemma open_at_end_example:
  "run_backtest default_params [] ex_open_at_end = Inr ex_open_at_end_result"
  by (simp add: ex_open_at_end_def ex_open_at_end_result_def ex_open_at_end_loop_def
      run_defs check_defs float_defs time_defs)

lemma two_cycles_example:
  "run_backtest default_params [] ex_two_cycles = Inr ex_two_cycles_result"
  by (simp add: ex_two_cycles_def ex_two_cycles_result_def
      run_defs check_defs float_defs time_defs)

lemma two_cycles_states:
  "position_states default_params ex_two_cycles = [0, 0, 1, 0, - 1, 0]"
  by (simp add: position_states_def ex_two_cycles_def
      run_defs check_defs float_defs time_defs)

lemma nan_end_example:
  "run_backtest default_params [] ex_nan_end = Inr ex_nan_end_result"
  by (simp add: ex_nan_end_def ex_nan_end_result_def
      run_defs check_defs float_defs time_defs)

lemma malformed_example:
  "run_backtest default_params [] ex_malformed = Inr ex_malformed_result"
  by (simp add: ex_malformed_def ex_malformed_result_def
      run_defs check_defs float_defs time_defs)

section \<open>The two copies of the signal rule\<close>

text \<open>
  C1, as the specification states it, at a concrete input: the live engine says SELL on a put
  gamma of \<open>-0.2\<close>, which is not above the threshold \<open>0.1\<close>, and the backtester signals
  short on a put gamma of \<open>0.2\<close>, which is not below \<open>-0.1\<close>.
\<close>

theorem sell_gamma_claim_counterexample:
  "generate_signal default_strategy (stamp 1 10 0) (Some ex_sell_greeks) (Some (Fin 35))
     (Some [ex_sell_candle]) = Inr (Some SELL, SELL_signal_generated)
   \<and> \<not> fgt (gamma (put ex_sell_greeks)) (gamma_threshold default_strategy)
   \<and> check_strategy_signal default_params ex_short_row = - 1
   \<and> \<not> flt (put_gamma ex_short_row) (fneg (GAMMA_THRESHOLD default_params))"
  using live_sell_example short_row_example
  by (simp add: ex_sell_greeks_def default_strategy_def default_params_def
      ex_short_row_def ex_row_def fgt_def)

text \<open>
  C1, amended: it is the other way round. Whenever the live engine's \<open>generate_signal\<close>
  returns SELL, the put gamma is strictly below minus the gamma threshold, and its
  delta-gamma SELL filter holds only then; whenever the backtester's
  \<open>_check_strategy_signal\<close> returns \<open>-1\<close>, the put gamma is strictly above the gamma
  threshold, and its delta-gamma short filter holds only then.
\<close>

theorem sell_gamma_conditions:
  "(generate_signal self now greeks_data vix historical_data = Inr (Some SELL, m) \<longrightarrow>
      (\<exists>g. greeks_data = Some g \<and> flt (gamma (put g)) (fneg (gamma_threshold self))))
   \<and> (delta_gamma_sell self g' latest_data \<longrightarrow>
        flt (gamma (put g')) (fneg (gamma_threshold self)))
   \<and> (check_strategy_signal p current = - 1 \<longrightarrow>
        fgt (put_gamma current) (GAMMA_THRESHOLD p))
   \<and> (delta_gamma_short p current \<longrightarrow> fgt (put_gamma current) (GAMMA_THRESHOLD p))"
  by (auto simp: generate_signal_def delta_gamma_sell_def check_strategy_signal_def
      short_signal_def delta_gamma_short_def split: sum.splits option.splits if_splits)

theorem sell_gamma_conditions_witness:
  "generate_signal default_strategy (stamp 1 10 0) (Some ex_sell_greeks) (Some (Fin 35))
     (Some [ex_sell_candle]) = Inr (Some SELL, SELL_signal_generated)
   \<and> delta_gamma_sell default_strategy ex_sell_greeks ex_sell_candle
   \<and> flt (gamma (put ex_sell_greeks)) (fneg (gamma_threshold default_strategy))
   \<and> check_strategy_signal default_params ex_short_row = - 1
   \<and> delta_gamma_short default_params ex_short_row
   \<and> fgt (put_gamma ex_short_row) (GAMMA_THRESHOLD default_params)"
proof -
  have a: "delta_gamma_sell default_strategy ex_sell_greeks ex_sell_candle"
    by (simp add: live_defs float_defs)
  have b: "delta_gamma_short default_params ex_short_row"
    by (simp add: check_defs float_defs)
  from sell_gamma_conditions
    [of default_strategy "stamp 1 10 0" "Some ex_sell_greeks" "Some (Fin 35)"
      "Some [ex_sell_candle]" SELL_signal_generated ex_sell_greeks ex_sell_candle
      default_params ex_short_row]
    live_sell_example short_row_example a b
  show ?thesis by blast
qed

text \<open>
  C2, as the specification states it, at a concrete input: the backtester signals long on
  an RSI of 20, which is not above 50, and short on an RSI of 80, which is not below 50.
\<close>

theorem backtest_momentum_claim_counterexample:
  "check_strategy_signal default_params ex_long_row = 1
   \<and> \<not> fgt (rsi ex_long_row) (Fin 50)
   \<and> check_strategy_signal default_params ex_short_row = - 1
   \<and> \<not> flt (rsi ex_short_row) (Fin 50)"
  using long_row_example short_row_example
  by (simp add: ex_long_row_def ex_short_row_def ex_row_def fgt_def)

text \<open>
  C2, amended: the backtester's per-bar check has its own momentum rule. Its long signal
  requires \<open>rsi < 30\<close> (the oversold level) and \<open>close > ma\<close>; its short signal requires
  \<open>rsi > 70\<close> (the overbought level) and \<open>close < ma\<close>.
\<close>

theorem backtest_momentum_filter:
  "(check_strategy_signal p current = 1 \<longrightarrow>
      flt (rsi current) (Fin 30) \<and> fgt (close current) (ma current))
   \<and> (check_strategy_signal p current = - 1 \<longrightarrow>
      fgt (rsi current) (Fin 70) \<and> flt (close current) (ma current))"
  by (auto simp: check_strategy_signal_def long_signal_def short_signal_def rsi_long_def
      rsi_short_def ma_long_def ma_short_def RSI_OVERSOLD_def RSI_OVERBOUGHT_def fgt_def
      split: if_splits)

theorem backtest_momentum_filter_witness:
  "check_strategy_signal default_params ex_long_row = 1
   \<and> flt (rsi ex_long_row) (Fin 30) \<and> fgt (close ex_long_row) (ma ex_long_row)
   \<and> check_strategy_signal default_params ex_short_row = - 1
   \<and> fgt (rsi ex_short_row) (Fin 70) \<and> flt (close ex_short_row) (ma ex_short_row)"
  using backtest_momentum_filter [of default_params ex_long_row]
    backtest_momentum_filter [of default_params ex_short_row]
    long_row_example short_row_example
  by simp

section \<open>The trading-hours check of the live engine\<close>

text \<open>
  C3: when \<open>is_trading_hours\<close> answers no, \<open>generate_signal\<close> returns no signal and logs
  that it is outside the trading hours, whatever the Greeks, the volatility index and the
  candle table are, also when they are missing: the check comes before the check of the data.
  With the default window the answer is yes exactly from 09:15:00 to 15:30:00, both included.
  (A window whose hour or minute is out of range makes \<open>is_trading_hours\<close> raise instead.)
\<close>

theorem outside_hours_no_signal:
  "(is_trading_hours self now = Inr False \<longrightarrow>
      generate_signal self now greeks_data vix historical_data
        = Inr (None, Outside_trading_hours))
   \<and> is_trading_hours default_strategy now =
       Inr (\<not> time_lt now (clock 9 15 0) \<and> \<not> time_lt (clock 15 30 0) now)"
proof (intro conjI impI)
  assume "is_trading_hours self now = Inr False"
  then show "generate_signal self now greeks_data vix historical_data
        = Inr (None, Outside_trading_hours)"
    by (simp add: generate_signal_def)
next
  show "is_trading_hours default_strategy now =
       Inr (\<not> time_lt now (clock 9 15 0) \<and> \<not> time_lt (clock 15 30 0) now)"
    by (auto simp: is_trading_hours_def replace_hm_def default_strategy_def datetime_le_def
        time_lt_def time_eq_def clock_def)
qed

theorem outside_hours_no_signal_witness:
  "is_trading_hours default_strategy (stamp 1 15 45) = Inr False
   \<and> generate_signal default_strategy (stamp 1 15 45) None None None
       = Inr (None, Outside_trading_hours)
   \<and> generate_signal default_strategy (stamp 1 15 45) (Some ex_sell_greeks) (Some (Fin 35))
       (Some [ex_sell_candle]) = Inr (None, Outside_trading_hours)"
proof -
  have a: "is_trading_hours default_strategy (stamp 1 15 45) = Inr False"
    by (simp add: is_trading_hours_def replace_hm_def default_strategy_def time_defs)
  from outside_hours_no_signal [of default_strategy "stamp 1 15 45" None None None]
    outside_hours_no_signal [of default_strategy "stamp 1 15 45" "Some ex_sell_greeks"
      "Some (Fin 35)" "Some [ex_sell_candle]"] a
  show ?thesis by blast
qed


section \<open>The backtest loop\<close>

subsection \<open>What every pass of the loop preserves\<close>

lemma check_strategy_signal_range: "check_strategy_signal p row \<in> {- 1, 0, 1}"
  by (simp add: check_strategy_signal_def)

lemma process_exit_total:
  assumes "entry_bound st"
  shows "\<exists>st1. process_exit p row st = Inr st1 \<and> entry_bound st1
           \<and> (position st1 = position st \<or> position st1 = 0)
           \<and> equity_curve st1 = equity_curve st
           \<and> length (trades st1)
               = length (trades st) + (if position st1 = position st then 0 else 1)"
  using assms by (auto simp: process_exit_def entry_bound_def Let_def)

lemma process_entry_bound:
  assumes "entry_bound st"
  shows "entry_bound (process_entry (check_strategy_signal p row) row st)"
  using assms check_strategy_signal_range [of p row]
  by (auto simp: process_entry_def entry_bound_def)

lemma process_entry_fields:
  "trades (process_entry s row st) = trades st"
  "capital (process_entry s row st) = capital st"
  "equity_curve (process_entry s row st) = equity_curve st"
  "position st \<noteq> 0 \<Longrightarrow> process_entry s row st = st"
  "position st = 0 \<Longrightarrow> position (process_entry s row st) = s"
  by (auto simp: process_entry_def)

lemma update_equity_fields:
  "trades (update_equity row st) = trades st"
  "capital (update_equity row st) = capital st"
  "position (update_equity row st) = position st"
  "entry_price (update_equity row st) = entry_price st"
  "entry_time (update_equity row st) = entry_time st"
  "length (equity_curve (update_equity row st)) = Suc (length (equity_curve st))"
  by (auto simp: update_equity_def Let_def)

lemma update_equity_bound: "entry_bound st \<Longrightarrow> entry_bound (update_equity row st)"
  by (simp add: entry_bound_def update_equity_fields)

lemma process_bar_total:
  assumes "entry_bound st"
  shows "\<exists>st'. process_bar p row st = Inr st' \<and> entry_bound st'"
proof (cases "outside_hours (timestamp row)")
  case True
  with assms show ?thesis by (simp add: process_bar_def)
next
  case False
  from process_exit_total [OF assms, of p row] obtain st1
    where "process_exit p row st = Inr st1" "entry_bound st1" by blast
  with False show ?thesis
    by (simp add: process_bar_def update_equity_bound process_entry_bound)
qed

lemma bar_loop_total:
  "entry_bound st \<Longrightarrow> \<exists>st'. bar_loop p st rows = Inr st' \<and> entry_bound st'"
proof (induction rows arbitrary: st)
  case Nil
  then show ?case by simp
next
  case (Cons row rows)
  from process_bar_total [OF Cons.prems, of p row] obtain st1
    where s: "process_bar p row st = Inr st1" "entry_bound st1" by blast
  from Cons.IH [OF s(2)] s(1) show ?case by simp
qed

lemma close_at_end_total:
  "entry_bound st \<Longrightarrow> \<exists>st'. close_at_end price_data st = Inr st'"
  by (auto simp: close_at_end_def entry_bound_def Let_def)

lemma initial_state_bound: "entry_bound (initial_state ts r)"
  by (simp add: entry_bound_def initial_state_def)

subsection \<open>Exit on stop loss or take profit\<close>

lemma fle_Fin_cases: "fle a (Fin b) \<Longrightarrow> a = NInf \<or> (\<exists>x. a = Fin x \<and> x \<le> b)"
  by (cases a) simp_all

lemma fle_NInf_round64: "fle NInf (round64 x)"
  using round64_not_nan [of x] by (cases "round64 x") simp_all

lemma fle_Fin_trans: "fle a (Fin b) \<Longrightarrow> b \<le> c \<Longrightarrow> fle a (Fin c)"
  by (cases a) simp_all

lemma fle_Fin_flt: "fle a (Fin b) \<Longrightarrow> b < c \<Longrightarrow> flt a (Fin c)"
  by (cases a) simp_all

lemma rdiv_mono: "c \<le> b \<Longrightarrow> 0 < k \<Longrightarrow> fle (rdiv (Fin c) (Fin k)) (round64 (b / k))"
  by (simp add: rdiv_def round64_mono divide_right_mono)

lemma rsub_mono: "fle a (Fin b) \<Longrightarrow> fle (rsub a (Fin k)) (round64 (b - k))"
  by (auto dest!: fle_Fin_cases simp: rsub_def fsub_def round64_mono fle_NInf_round64)

lemma rmul_mono: "fle a (Fin b) \<Longrightarrow> 0 < k \<Longrightarrow> fle (rmul a (Fin k)) (round64 (b * k))"
  by (auto dest!: fle_Fin_cases
      simp: rmul_def inf_of_sign_def round64_mono fle_NInf_round64 mult_right_mono)

text \<open>
  A long from 100 at a close of at most 99: the machine's percentage is at most the one at 99,
  which is a little below \<open>-1\<close>.
\<close>

lemma long_from_100_at_99:
  assumes "c \<le> 99"
  shows "fle (pnl_percent_of (Fin c) (Fin 100) 1)
           (Fin (- (1125899906842625 / 1125899906842624)))"
proof -
  have "fle (rdiv (Fin c) (Fin 100)) (round64 (99 / 100))"
    using assms by (intro rdiv_mono) simp_all
  then have "fle (rdiv (Fin c) (Fin 100)) (Fin (4458563631096791 / 4503599627370496))"
    by (simp add: round64_values)
  then have "fle (rsub (rdiv (Fin c) (Fin 100)) (Fin 1))
               (round64 (4458563631096791 / 4503599627370496 - 1))"
    by (rule rsub_mono)
  then have "fle (rsub (rdiv (Fin c) (Fin 100)) (Fin 1))
               (Fin (- (45035996273705 / 4503599627370496)))"
    by (simp add: round64_values round64_minus)
  then have "fle (rmul (rsub (rdiv (Fin c) (Fin 100)) (Fin 1)) (Fin 100))
               (round64 (- (45035996273705 / 4503599627370496) * 100))"
    by (rule rmul_mono) simp
  then have "fle (rmul (rsub (rdiv (Fin c) (Fin 100)) (Fin 1)) (Fin 100))
               (Fin (- (1125899906842625 / 1125899906842624)))"
    by (simp add: round64_values round64_minus)
  then have "fle (rmul (rmul (rsub (rdiv (Fin c) (Fin 100)) (Fin 1)) (Fin 100)) (Fin 1))
               (round64 (- (1125899906842625 / 1125899906842624) * 1))"
    by (rule rmul_mono) simp
  then show ?thesis
    by (simp add: pnl_percent_of_def round64_values round64_minus)
qed

lemma bar_loop_append:
  "bar_loop p st (xs @ ys) =
     (case bar_loop p st xs of Inl e \<Rightarrow> Inl e | Inr s \<Rightarrow> bar_loop p s ys)"
  by (induction xs arbitrary: st) (simp_all split: sum.splits)

text \<open>
  While every bar is outside the hours or leaves the percentage strictly inside the
  thresholds, the loop keeps the position, its entry, the capital and the trades.
\<close>

lemma bar_loop_holds:
  assumes "position st \<noteq> 0"
    and "\<forall>r \<in> set pre. outside_hours (timestamp r) \<or>
           \<not> (fle (pnl_percent_of (close r) (entry_price st) (position st))
                  (fneg (STOP_LOSS_PERCENT p))
               \<or> fge (pnl_percent_of (close r) (entry_price st) (position st))
                    (TAKE_PROFIT_PERCENT p))"
  shows "\<exists>st'. bar_loop p st pre = Inr st' \<and> position st' = position st
           \<and> entry_price st' = entry_price st \<and> entry_time st' = entry_time st
           \<and> capital st' = capital st \<and> trades st' = trades st"
  using assms
proof (induction pre arbitrary: st)
  case Nil
  then show ?case by simp
next
  case (Cons r pre)
  show ?case
  proof (cases "outside_hours (timestamp r)")
    case True
    from Cons.prems have "\<exists>st'. bar_loop p st pre = Inr st' \<and> position st' = position st
           \<and> entry_price st' = entry_price st \<and> entry_time st' = entry_time st
           \<and> capital st' = capital st \<and> trades st' = trades st"
      by (intro Cons.IH) simp_all
    with True show ?thesis by (simp add: process_bar_def)
  next
    case False
    with Cons.prems have keep: "process_exit p r st = Inr st"
      by (simp add: process_exit_def Let_def)
    define st2 where "st2 = update_equity r st"
    have bar: "process_bar p r st = Inr st2"
      using False keep Cons.prems(1) by (simp add: process_bar_def process_entry_def st2_def)
    have same: "position st2 = position st" "entry_price st2 = entry_price st"
      "entry_time st2 = entry_time st" "capital st2 = capital st" "trades st2 = trades st"
      by (simp_all add: st2_def update_equity_fields)
    from Cons.prems same have "\<exists>st'. bar_loop p st2 pre = Inr st' \<and> position st' = position st2
           \<and> entry_price st' = entry_price st2 \<and> entry_time st' = entry_time st2
           \<and> capital st' = capital st2 \<and> trades st' = trades st2"
      by (intro Cons.IH) simp_all
    with bar same show ?thesis by simp
  qed
qed

text \<open>
  The first bar inside the hours that meets a threshold closes the position the earlier bars
  kept.
\<close>

lemma bar_loop_exit:
  assumes et: "entry_time st = Some et" and nz: "position st \<noteq> 0"
    and kept: "\<forall>r \<in> set pre. outside_hours (timestamp r) \<or>
           \<not> (fle (pnl_percent_of (close r) (entry_price st) (position st))
                  (fneg (STOP_LOSS_PERCENT p))
               \<or> fge (pnl_percent_of (close r) (entry_price st) (position st))
                    (TAKE_PROFIT_PERCENT p))"
    and inh: "\<not> outside_hours (timestamp row)"
    and hit: "fle (pnl_percent_of (close row) (entry_price st) (position st))
                (fneg (STOP_LOSS_PERCENT p))
              \<or> fge (pnl_percent_of (close row) (entry_price st) (position st))
                   (TAKE_PROFIT_PERCENT p)"
  shows "\<exists>st1. bar_loop p st (pre @ [row]) = Inr st1
               \<and> bar_loop p st (pre @ row # post) = bar_loop p st1 post
               \<and> position st1 = check_strategy_signal p row
               \<and> capital st1 =
                   radd (capital st) (trade_pnl_of (close row) (entry_price st) (position st))
               \<and> trades st1 = trades st @
                   [\<lparr>t_entry_time = et, exit_time = timestamp row,
                     t_entry_price = entry_price st, exit_price = close row,
                     t_position = side (position st),
                     pnl = trade_pnl_of (close row) (entry_price st) (position st),
                     pnl_percent = pnl_percent_of (close row) (entry_price st) (position st),
                     exit_reason =
                       (if flt (pnl_percent_of (close row) (entry_price st) (position st))
                             (Fin 0)
                        then ''SL'' else ''TP'')\<rparr>]"
proof -
  from nz kept have "\<exists>st'. bar_loop p st pre = Inr st' \<and> position st' = position st
           \<and> entry_price st' = entry_price st \<and> entry_time st' = entry_time st
           \<and> capital st' = capital st \<and> trades st' = trades st"
    by (rule bar_loop_holds)
  then obtain st' where pre: "bar_loop p st pre = Inr st'" and
    same: "position st' = position st" "entry_price st' = entry_price st"
      "entry_time st' = entry_time st" "capital st' = capital st" "trades st' = trades st"
    by blast
  define st1 where
    "st1 = update_equity row (process_entry (check_strategy_signal p row) row
       (st'\<lparr>capital :=
               radd (capital st') (trade_pnl_of (close row) (entry_price st') (position st')),
            trades := trades st' @
              [\<lparr>t_entry_time = et, exit_time = timestamp row,
                t_entry_price = entry_price st', exit_price = close row,
                t_position = side (position st'),
                pnl = trade_pnl_of (close row) (entry_price st') (position st'),
                pnl_percent = pnl_percent_of (close row) (entry_price st') (position st'),
                exit_reason =
                  (if flt (pnl_percent_of (close row) (entry_price st') (position st')) (Fin 0)
                   then ''SL'' else ''TP'')\<rparr>],
            position := 0\<rparr>))"
  have bar: "process_bar p row st' = Inr st1"
    using inh nz hit same et
    by (simp add: process_bar_def process_exit_def Let_def st1_def)
  have one: "bar_loop p st (pre @ [row]) = Inr st1"
    by (simp add: bar_loop_append pre bar)
  have more: "bar_loop p st (pre @ row # post) = bar_loop p st1 post"
    by (simp add: bar_loop_append pre bar)
  have pos1: "position st1 = check_strategy_signal p row"
    by (simp add: st1_def update_equity_fields process_entry_fields)
  have cap1: "capital st1 =
      radd (capital st) (trade_pnl_of (close row) (entry_price st) (position st))"
    by (simp add: st1_def update_equity_fields process_entry_fields same)
  have tr1: "trades st1 = trades st @
                   [\<lparr>t_entry_time = et, exit_time = timestamp row,
                     t_entry_price = entry_price st, exit_price = close row,
                     t_position = side (position st),
                     pnl = trade_pnl_of (close row) (entry_price st) (position st),
                     pnl_percent = pnl_percent_of (close row) (entry_price st) (position st),
                     exit_reason =
                       (if flt (pnl_percent_of (close row) (entry_price st) (position st))
                             (Fin 0)
                        then ''SL'' else ''TP'')\<rparr>]"
    by (simp add: st1_def update_equity_fields process_entry_fields same)
  from one more pos1 cap1 tr1 show ?thesis by blast
qed

text \<open>
  C4. The percentage is \<open>((close / entry_price) - 1) * 100 * position\<close>, each operation
  rounded as the machine rounds it. With a position open, the exit block closes it exactly
  when that percentage is at or below minus the stop loss or at or above the take profit:
  then \<open>(close - entry_price) * position\<close> is added to the capital, one trade is appended
  with the bar's close and timestamp and the reason \<open>SL\<close> when the percentage is negative
  and \<open>TP\<close> otherwise, and the position is 0; otherwise the block changes nothing. The block
  runs at every bar inside the hours and at no other, before the entry block. In the loop, a
  position that every earlier bar kept (each being outside the hours or strictly inside the
  thresholds) is closed by the first bar inside the hours that meets a threshold, and the
  bar ends with the position its own signal gives. In particular a long entered at 100 with
  a stop loss of 1.0 meets the stop loss at every close of at most 99, with a percentage of
  at most \<open>-1\<close> and the reason \<open>SL\<close>, so no bar that kept it closed at 99 or below.
\<close>

theorem stop_loss_take_profit_exit:
  assumes "entry_time st = Some et"
  shows
    "pnl_percent_of price entry pos =
       rmul (rmul (rsub (rdiv price entry) (Fin 1)) (Fin 100)) (Fin (of_int pos))
     \<and> (e \<noteq> 0 \<and> round64 (c / e) = Fin q \<and> round64 (q - 1) = Fin d
          \<and> round64 (d * 100) = Fin m
        \<longrightarrow> pnl_percent_of (Fin c) (Fin e) pos = round64 (m * of_int pos))
     \<and> process_exit p row st =
         (if position st \<noteq> 0
             \<and> (fle (rmul (rmul (rsub (rdiv (close row) (entry_price st)) (Fin 1)) (Fin 100))
                        (Fin (of_int (position st))))
                      (fneg (STOP_LOSS_PERCENT p))
                \<or> fge (rmul (rmul (rsub (rdiv (close row) (entry_price st)) (Fin 1)) (Fin 100))
                          (Fin (of_int (position st))))
                        (TAKE_PROFIT_PERCENT p))
          then Inr (st\<lparr>capital :=
                          radd (capital st)
                            (rmul (rsub (close row) (entry_price st))
                               (Fin (of_int (position st)))),
                       trades := trades st @
                         [\<lparr>t_entry_time = et, exit_time = timestamp row,
                           t_entry_price = entry_price st, exit_price = close row,
                           t_position = (if position st = 1 then ''LONG'' else ''SHORT''),
                           pnl = rmul (rsub (close row) (entry_price st))
                                   (Fin (of_int (position st))),
                           pnl_percent =
                             rmul (rmul (rsub (rdiv (close row) (entry_price st)) (Fin 1))
                                     (Fin 100))
                               (Fin (of_int (position st))),
                           exit_reason =
                             (if flt (rmul (rmul (rsub (rdiv (close row) (entry_price st))
                                                    (Fin 1)) (Fin 100))
                                        (Fin (of_int (position st))))
                                   (Fin 0)
                              then ''SL'' else ''TP'')\<rparr>],
                       position := 0\<rparr>)
          else Inr st)
     \<and> process_bar p row st =
         (if outside_hours (timestamp row) then Inr st
          else map_sum id
                 (\<lambda>st1. update_equity row
                          (process_entry (check_strategy_signal p row) row st1))
                 (process_exit p row st))
     \<and> (position st \<noteq> 0
          \<and> (\<forall>r \<in> set pre. outside_hours (timestamp r) \<or>
                \<not> (fle (pnl_percent_of (close r) (entry_price st) (position st))
                       (fneg (STOP_LOSS_PERCENT p))
                    \<or> fge (pnl_percent_of (close r) (entry_price st) (position st))
                         (TAKE_PROFIT_PERCENT p)))
          \<and> \<not> outside_hours (timestamp row)
          \<and> (fle (pnl_percent_of (close row) (entry_price st) (position st))
                (fneg (STOP_LOSS_PERCENT p))
              \<or> fge (pnl_percent_of (close row) (entry_price st) (position st))
                   (TAKE_PROFIT_PERCENT p))
        \<longrightarrow> (\<exists>st1. bar_loop p st (pre @ [row]) = Inr st1
               \<and> bar_loop p st (pre @ row # post) = bar_loop p st1 post
               \<and> position st1 = check_strategy_signal p row
               \<and> capital st1 =
                   radd (capital st) (trade_pnl_of (close row) (entry_price st) (position st))
               \<and> trades st1 = trades st @
                   [\<lparr>t_entry_time = et, exit_time = timestamp row,
                     t_entry_price = entry_price st, exit_price = close row,
                     t_position = side (position st),
                     pnl = trade_pnl_of (close row) (entry_price st) (position st),
                     pnl_percent = pnl_percent_of (close row) (entry_price st) (position st),
                     exit_reason =
                       (if flt (pnl_percent_of (close row) (entry_price st) (position st))
                             (Fin 0)
                        then ''SL'' else ''TP'')\<rparr>]))
     \<and> (position st = 1 \<and> entry_price st = Fin 100 \<and> STOP_LOSS_PERCENT p = Fin 1
          \<and> close row = Fin c' \<and> c' \<le> 99
        \<longrightarrow> fle (pnl_percent_of (close row) (entry_price st) (position st)) (Fin (- 1))
            \<and> fle (pnl_percent_of (close row) (entry_price st) (position st))
                (fneg (STOP_LOSS_PERCENT p))
            \<and> flt (pnl_percent_of (close row) (entry_price st) (position st)) (Fin 0))
     \<and> (position st = 1 \<and> entry_price st = Fin 100 \<and> STOP_LOSS_PERCENT p = Fin 1
          \<and> (\<forall>r \<in> set pre. outside_hours (timestamp r) \<or>
                \<not> (fle (pnl_percent_of (close r) (entry_price st) (position st))
                       (fneg (STOP_LOSS_PERCENT p))
                    \<or> fge (pnl_percent_of (close r) (entry_price st) (position st))
                         (TAKE_PROFIT_PERCENT p)))
          \<and> \<not> outside_hours (timestamp row) \<and> close row = Fin c' \<and> c' \<le> 99
        \<longrightarrow> (\<forall>r \<in> set pre. outside_hours (timestamp r) \<or> (\<forall>x. close r = Fin x \<longrightarrow> 99 < x))
            \<and> (\<exists>st1. bar_loop p st (pre @ [row]) = Inr st1
                 \<and> position st1 = check_strategy_signal p row
                 \<and> trades st1 = trades st @
                     [\<lparr>t_entry_time = et, exit_time = timestamp row,
                       t_entry_price = Fin 100, exit_price = Fin c',
                       t_position = ''LONG'',
                       pnl = rmul (rsub (Fin c') (Fin 100)) (Fin 1),
                       pnl_percent = pnl_percent_of (Fin c') (Fin 100) 1,
                       exit_reason = ''SL''\<rparr>]))"
proof (intro conjI impI)
  show "pnl_percent_of price entry pos =
       rmul (rmul (rsub (rdiv price entry) (Fin 1)) (Fin 100)) (Fin (of_int pos))"
    by (simp add: pnl_percent_of_def)
next
  assume "e \<noteq> 0 \<and> round64 (c / e) = Fin q \<and> round64 (q - 1) = Fin d
          \<and> round64 (d * 100) = Fin m"
  then show "pnl_percent_of (Fin c) (Fin e) pos = round64 (m * of_int pos)"
    by (simp add: pnl_percent_of_def rdiv_def rsub_def rmul_def fsub_def)
next
  show "process_exit p row st =
         (if position st \<noteq> 0
             \<and> (fle (rmul (rmul (rsub (rdiv (close row) (entry_price st)) (Fin 1)) (Fin 100))
                        (Fin (of_int (position st))))
                      (fneg (STOP_LOSS_PERCENT p))
                \<or> fge (rmul (rmul (rsub (rdiv (close row) (entry_price st)) (Fin 1)) (Fin 100))
                          (Fin (of_int (position st))))
                        (TAKE_PROFIT_PERCENT p))
          then Inr (st\<lparr>capital :=
                          radd (capital st)
                            (rmul (rsub (close row) (entry_price st))
                               (Fin (of_int (position st)))),
                       trades := trades st @
                         [\<lparr>t_entry_time = et, exit_time = timestamp row,
                           t_entry_price = entry_price st, exit_price = close row,
                           t_position = (if position st = 1 then ''LONG'' else ''SHORT''),
                           pnl = rmul (rsub (close row) (entry_price st))
                                   (Fin (of_int (position st))),
                           pnl_percent =
                             rmul (rmul (rsub (rdiv (close row) (entry_price st)) (Fin 1))
                                     (Fin 100))
                               (Fin (of_int (position st))),
                           exit_reason =
                             (if flt (rmul (rmul (rsub (rdiv (close row) (entry_price st))
                                                    (Fin 1)) (Fin 100))
                                        (Fin (of_int (position st))))
                                   (Fin 0)
                              then ''SL'' else ''TP'')\<rparr>],
                       position := 0\<rparr>)
          else Inr st)"
    using assms
    by (simp add: process_exit_def Let_def pnl_percent_of_def trade_pnl_of_def side_def)
next
  show "process_bar p row st =
         (if outside_hours (timestamp row) then Inr st
          else map_sum id
                 (\<lambda>st1. update_equity row
                          (process_entry (check_strategy_signal p row) row st1))
                 (process_exit p row st))"
    by (simp add: process_bar_def split: sum.splits)
next
  assume a: "position st \<noteq> 0
          \<and> (\<forall>r \<in> set pre. outside_hours (timestamp r) \<or>
                \<not> (fle (pnl_percent_of (close r) (entry_price st) (position st))
                       (fneg (STOP_LOSS_PERCENT p))
                    \<or> fge (pnl_percent_of (close r) (entry_price st) (position st))
                         (TAKE_PROFIT_PERCENT p)))
          \<and> \<not> outside_hours (timestamp row)
          \<and> (fle (pnl_percent_of (close row) (entry_price st) (position st))
                (fneg (STOP_LOSS_PERCENT p))
              \<or> fge (pnl_percent_of (close row) (entry_price st) (position st))
                   (TAKE_PROFIT_PERCENT p))"
  with assms show "\<exists>st1. bar_loop p st (pre @ [row]) = Inr st1
               \<and> bar_loop p st (pre @ row # post) = bar_loop p st1 post
               \<and> position st1 = check_strategy_signal p row
               \<and> capital st1 =
                   radd (capital st) (trade_pnl_of (close row) (entry_price st) (position st))
               \<and> trades st1 = trades st @
                   [\<lparr>t_entry_time = et, exit_time = timestamp row,
                     t_entry_price = entry_price st, exit_price = close row,
                     t_position = side (position st),
                     pnl = trade_pnl_of (close row) (entry_price st) (position st),
                     pnl_percent = pnl_percent_of (close row) (entry_price st) (position st),
                     exit_reason =
                       (if flt (pnl_percent_of (close row) (entry_price st) (position st))
                             (Fin 0)
                        then ''SL'' else ''TP'')\<rparr>]"
    by (intro bar_loop_exit) simp_all
next
  assume b: "position st = 1 \<and> entry_price st = Fin 100 \<and> STOP_LOSS_PERCENT p = Fin 1
          \<and> close row = Fin c' \<and> c' \<le> 99"
  then have le: "fle (pnl_percent_of (close row) (entry_price st) (position st))
           (Fin (- (1125899906842625 / 1125899906842624)))"
    using long_from_100_at_99 [of c'] by simp
  from le show "fle (pnl_percent_of (close row) (entry_price st) (position st)) (Fin (- 1))"
    by (rule fle_Fin_trans) simp
  from le b show "fle (pnl_percent_of (close row) (entry_price st) (position st))
                (fneg (STOP_LOSS_PERCENT p))"
    by (simp add: fle_Fin_trans)
  from le show "flt (pnl_percent_of (close row) (entry_price st) (position st)) (Fin 0)"
    by (rule fle_Fin_flt) simp
next
  assume g: "position st = 1 \<and> entry_price st = Fin 100 \<and> STOP_LOSS_PERCENT p = Fin 1
          \<and> (\<forall>r \<in> set pre. outside_hours (timestamp r) \<or>
                \<not> (fle (pnl_percent_of (close r) (entry_price st) (position st))
                       (fneg (STOP_LOSS_PERCENT p))
                    \<or> fge (pnl_percent_of (close r) (entry_price st) (position st))
                         (TAKE_PROFIT_PERCENT p)))
          \<and> \<not> outside_hours (timestamp row) \<and> close row = Fin c' \<and> c' \<le> 99"
  have low: "fle (pnl_percent_of (Fin x) (Fin 100) 1) (fneg (Fin 1))" if "x \<le> 99" for x
    using long_from_100_at_99 [OF that] by (simp add: fle_Fin_trans)
  show "\<forall>r \<in> set pre. outside_hours (timestamp r) \<or> (\<forall>x. close r = Fin x \<longrightarrow> 99 < x)"
  proof (intro ballI)
    fix r assume r: "r \<in> set pre"
    show "outside_hours (timestamp r) \<or> (\<forall>x. close r = Fin x \<longrightarrow> 99 < x)"
    proof (cases "outside_hours (timestamp r)")
      case True
      then show ?thesis by simp
    next
      case False
      with g r have no: "\<not> fle (pnl_percent_of (close r) (Fin 100) 1) (fneg (Fin 1))"
        by auto
      have "99 < x" if "close r = Fin x" for x
      proof (rule ccontr)
        assume "\<not> 99 < x"
        then have "x \<le> 99" by simp
        from low [OF this] no that show False by simp
      qed
      then show ?thesis by simp
    qed
  qed
  from g have hit: "fle (pnl_percent_of (close row) (entry_price st) (position st))
                (fneg (STOP_LOSS_PERCENT p))
              \<or> fge (pnl_percent_of (close row) (entry_price st) (position st))
                   (TAKE_PROFIT_PERCENT p)"
    using low [of c'] by simp
  from g have neg: "flt (pnl_percent_of (Fin c') (Fin 100) 1) (Fin 0)"
    using long_from_100_at_99 [of c'] by (simp add: fle_Fin_flt)
  have "\<exists>st1. bar_loop p st (pre @ [row]) = Inr st1
               \<and> bar_loop p st (pre @ row # []) = bar_loop p st1 []
               \<and> position st1 = check_strategy_signal p row
               \<and> capital st1 =
                   radd (capital st) (trade_pnl_of (close row) (entry_price st) (position st))
               \<and> trades st1 = trades st @
                   [\<lparr>t_entry_time = et, exit_time = timestamp row,
                     t_entry_price = entry_price st, exit_price = close row,
                     t_position = side (position st),
                     pnl = trade_pnl_of (close row) (entry_price st) (position st),
                     pnl_percent = pnl_percent_of (close row) (entry_price st) (position st),
                     exit_reason =
                       (if flt (pnl_percent_of (close row) (entry_price st) (position st))
                             (Fin 0)
                        then ''SL'' else ''TP'')\<rparr>]"
  proof -
    from g have nz: "position st \<noteq> 0" by simp
    from g have kept: "\<forall>r \<in> set pre. outside_hours (timestamp r) \<or>
                \<not> (fle (pnl_percent_of (close r) (entry_price st) (position st))
                       (fneg (STOP_LOSS_PERCENT p))
                    \<or> fge (pnl_percent_of (close r) (entry_price st) (position st))
                         (TAKE_PROFIT_PERCENT p))"
      by blast
    from g have inh: "\<not> outside_hours (timestamp row)" by blast
    show ?thesis by (rule bar_loop_exit [OF assms nz kept inh hit])
  qed
  with g neg show "\<exists>st1. bar_loop p st (pre @ [row]) = Inr st1
                 \<and> position st1 = check_strategy_signal p row
                 \<and> trades st1 = trades st @
                     [\<lparr>t_entry_time = et, exit_time = timestamp row,
                       t_entry_price = Fin 100, exit_price = Fin c',
                       t_position = ''LONG'',
                       pnl = rmul (rsub (Fin c') (Fin 100)) (Fin 1),
                       pnl_percent = pnl_percent_of (Fin c') (Fin 100) 1,
                       exit_reason = ''SL''\<rparr>]"
    by (auto simp: side_def trade_pnl_of_def)
qed

lemma stopped_example:
  "bar_loop default_params ex_long_state [ex_hold_row, ex_skipped_row, ex_stop_row]
     = Inr ex_stopped_state"
  by (simp add: ex_long_state_def ex_stopped_state_def ex_stop_trade_def ex_hold_row_def
      ex_skipped_row_def run_defs check_defs float_defs time_defs)

theorem stop_loss_take_profit_exit_witness:
  "entry_time ex_long_state = Some (stamp 1 10 15)
   \<and> pnl_percent_of (Fin 97) (Fin 98) (- 1) = Fin (2297754911923725 / 2251799813685248)
   \<and> process_exit default_params ex_stop_row ex_long_state =
       Inr (ex_long_state\<lparr>capital := Fin 99998.5, trades := [ex_stop_trade], position := 0\<rparr>)
   \<and> process_exit default_params ex_hold_row ex_long_state = Inr ex_long_state
   \<and> process_exit ex_wide_params ex_boundary_row ex_long_state = Inr ex_long_state
   \<and> process_bar default_params ex_skipped_row ex_long_state = Inr ex_long_state
   \<and> bar_loop default_params ex_long_state [ex_hold_row, ex_skipped_row, ex_stop_row]
       = Inr ex_stopped_state
   \<and> position ex_stopped_state = 0
   \<and> capital ex_stopped_state = Fin 99998.5
   \<and> trades ex_stopped_state = [ex_stop_trade]
   \<and> pnl_percent ex_stop_trade = Fin (- (3377699720527875 / 2251799813685248))
   \<and> fle (pnl_percent ex_stop_trade) (Fin (- 1))
   \<and> exit_reason (last (trades ex_stopped_state)) = ''SL''
   \<and> exit_price (last (trades ex_stopped_state)) = Fin 98.5
   \<and> exit_time (last (trades ex_stopped_state)) = stamp 2 10 0"
proof -
  have h: "entry_time ex_long_state = Some (stamp 1 10 15)"
    by (simp add: ex_long_state_def)
  have r1: "round64 (97 / 98) = Fin (8915289058264043 / 9007199254740992)"
    and r2: "round64 (8915289058264043 / 9007199254740992 - 1)
               = Fin (- (91910196476949 / 9007199254740992))"
    and r3: "round64 (- (91910196476949 / 9007199254740992) * 100)
               = Fin (- (2297754911923725 / 2251799813685248))"
    by (simp_all add: round64_values round64_minus)
  have f: "pnl_percent_of (Fin 97) (Fin 98) (- 1) = Fin (2297754911923725 / 2251799813685248)"
  proof -
    have "(98::real) \<noteq> 0 \<and> round64 (97 / 98) = Fin (8915289058264043 / 9007199254740992)
        \<and> round64 (8915289058264043 / 9007199254740992 - 1)
            = Fin (- (91910196476949 / 9007199254740992))
        \<and> round64 (- (91910196476949 / 9007199254740992) * 100)
            = Fin (- (2297754911923725 / 2251799813685248))"
      by (simp add: round64_values round64_minus)
    with stop_loss_take_profit_exit
      [where st = ex_long_state and et = "stamp 1 10 15"
        and c = 97 and e = 98 and pos = "- 1"
        and q = "8915289058264043 / 9007199254740992"
        and d = "- (91910196476949 / 9007199254740992)"
        and m = "- (2297754911923725 / 2251799813685248)", OF h,
       THEN conjunct2, THEN conjunct1]
    have "pnl_percent_of (Fin 97) (Fin 98) (- 1)
            = round64 (- (2297754911923725 / 2251799813685248) * of_int (- 1))"
      by blast
    then show ?thesis by (simp add: round64_values)
  qed
  have stop: "process_exit default_params ex_stop_row ex_long_state =
       Inr (ex_long_state\<lparr>capital := Fin 99998.5, trades := [ex_stop_trade], position := 0\<rparr>)"
    unfolding stop_loss_take_profit_exit
      [where st = ex_long_state and et = "stamp 1 10 15"
        and p = default_params and row = ex_stop_row, OF h,
       THEN conjunct2, THEN conjunct2, THEN conjunct1]
    by (simp add: ex_long_state_def ex_stop_row_def ex_row_def ex_stop_trade_def
        default_params_def radd_def rsub_def rmul_def rdiv_def fsub_def fge_def
        round64_values round64_minus round64_zero stamp_def)
  have hold: "process_exit default_params ex_hold_row ex_long_state = Inr ex_long_state"
    unfolding stop_loss_take_profit_exit
      [where st = ex_long_state and et = "stamp 1 10 15"
        and p = default_params and row = ex_hold_row, OF h,
       THEN conjunct2, THEN conjunct2, THEN conjunct1]
    by (simp add: ex_long_state_def ex_hold_row_def ex_row_def
        default_params_def radd_def rsub_def rmul_def rdiv_def fsub_def fge_def
        round64_values round64_minus round64_zero)
  have boundary: "process_exit ex_wide_params ex_boundary_row ex_long_state = Inr ex_long_state"
    unfolding stop_loss_take_profit_exit
      [where st = ex_long_state and et = "stamp 1 10 15"
        and p = ex_wide_params and row = ex_boundary_row, OF h,
       THEN conjunct2, THEN conjunct2, THEN conjunct1]
    by (simp add: ex_long_state_def ex_boundary_row_def ex_row_def ex_wide_params_def
        default_params_def radd_def rsub_def rmul_def rdiv_def fsub_def fge_def
        round64_values round64_minus round64_zero)
  have skipped: "process_bar default_params ex_skipped_row ex_long_state = Inr ex_long_state"
    unfolding stop_loss_take_profit_exit
      [where st = ex_long_state and et = "stamp 1 10 15"
        and p = default_params and row = ex_skipped_row, OF h,
       THEN conjunct2, THEN conjunct2, THEN conjunct2, THEN conjunct1]
    by (simp add: ex_skipped_row_def ex_row_def time_defs)
  have pp: "pnl_percent_of (close ex_stop_row) (entry_price ex_long_state)
              (position ex_long_state) = Fin (- (3377699720527875 / 2251799813685248))"
    by (simp add: ex_long_state_def ex_stop_row_def ex_row_def pnl_percent_of_def
        rsub_def rmul_def rdiv_def fsub_def round64_values round64_minus)
  have pph: "pnl_percent_of (close ex_hold_row) (entry_price ex_long_state)
              (position ex_long_state) = Fin (140737488355325 / 281474976710656)"
    by (simp add: ex_long_state_def ex_hold_row_def ex_row_def pnl_percent_of_def
        rsub_def rmul_def rdiv_def fsub_def round64_values round64_minus)
  have a1: "position ex_long_state \<noteq> 0" by (simp add: ex_long_state_def)
  have a2: "\<forall>r \<in> set [ex_hold_row, ex_skipped_row]. outside_hours (timestamp r) \<or>
                \<not> (fle (pnl_percent_of (close r) (entry_price ex_long_state)
                          (position ex_long_state))
                       (fneg (STOP_LOSS_PERCENT default_params))
                    \<or> fge (pnl_percent_of (close r) (entry_price ex_long_state)
                            (position ex_long_state))
                         (TAKE_PROFIT_PERCENT default_params))"
    using pph by (simp add: ex_skipped_row_def ex_row_def time_defs default_params_def fge_def)
  have a3: "\<not> outside_hours (timestamp ex_stop_row)"
    by (simp add: ex_stop_row_def ex_row_def time_defs)
  have a4: "fle (pnl_percent_of (close ex_stop_row) (entry_price ex_long_state)
                   (position ex_long_state))
              (fneg (STOP_LOSS_PERCENT default_params))
            \<or> fge (pnl_percent_of (close ex_stop_row) (entry_price ex_long_state)
                     (position ex_long_state))
                 (TAKE_PROFIT_PERCENT default_params)"
    using pp by (simp add: default_params_def)
  have a5: "position ex_long_state = 1 \<and> entry_price ex_long_state = Fin 100
          \<and> STOP_LOSS_PERCENT default_params = Fin 1
          \<and> close ex_stop_row = Fin 98.5 \<and> (98.5::real) \<le> 99"
    by (simp add: ex_long_state_def default_params_def ex_stop_row_def ex_row_def)
  from stop_loss_take_profit_exit
      [where st = ex_long_state and et = "stamp 1 10 15"
        and p = default_params and row = ex_stop_row
        and pre = "[ex_hold_row, ex_skipped_row]" and post = "[]", OF h,
       THEN conjunct2, THEN conjunct2, THEN conjunct2, THEN conjunct2, THEN conjunct1]
    a1 a2 a3 a4
  obtain st1 where
    s1: "bar_loop default_params ex_long_state ([ex_hold_row, ex_skipped_row] @ [ex_stop_row])
           = Inr st1"
    and s2: "position st1 = check_strategy_signal default_params ex_stop_row"
    and s3: "capital st1 =
        radd (capital ex_long_state)
          (trade_pnl_of (close ex_stop_row) (entry_price ex_long_state)
             (position ex_long_state))"
    and s4: "trades st1 = trades ex_long_state @
        [\<lparr>t_entry_time = stamp 1 10 15, exit_time = timestamp ex_stop_row,
          t_entry_price = entry_price ex_long_state, exit_price = close ex_stop_row,
          t_position = side (position ex_long_state),
          pnl = trade_pnl_of (close ex_stop_row) (entry_price ex_long_state)
                  (position ex_long_state),
          pnl_percent = pnl_percent_of (close ex_stop_row) (entry_price ex_long_state)
                  (position ex_long_state),
          exit_reason =
            (if flt (pnl_percent_of (close ex_stop_row) (entry_price ex_long_state)
                       (position ex_long_state)) (Fin 0)
             then ''SL'' else ''TP'')\<rparr>]"
    by blast
  from s1 stopped_example have eq: "st1 = ex_stopped_state" by simp
  from stop_loss_take_profit_exit
      [where st = ex_long_state and et = "stamp 1 10 15"
        and p = default_params and row = ex_stop_row and c' = "98.5", OF h,
       THEN conjunct2, THEN conjunct2, THEN conjunct2, THEN conjunct2, THEN conjunct2,
       THEN conjunct1] a5
  have sl: "fle (pnl_percent_of (close ex_stop_row) (entry_price ex_long_state)
                            (position ex_long_state)) (Fin (- 1))"
    by blast
  have c1: "position ex_stopped_state = 0"
    using s2 eq by (simp add: check_defs float_defs)
  have c2: "capital ex_stopped_state = Fin 99998.5"
    using s3 eq
    by (simp add: ex_long_state_def ex_stop_row_def ex_row_def trade_pnl_of_def
        radd_def rsub_def rmul_def fsub_def round64_values round64_minus)
  have c3: "trades ex_stopped_state = [ex_stop_trade]"
    using s4 eq pp
    by (simp add: ex_long_state_def ex_stop_row_def ex_row_def ex_stop_trade_def
        trade_pnl_of_def side_def rsub_def rmul_def fsub_def round64_values round64_minus)
  have c4: "pnl_percent ex_stop_trade = Fin (- (3377699720527875 / 2251799813685248))"
    by (simp add: ex_stop_trade_def)
  have c5: "fle (pnl_percent ex_stop_trade) (Fin (- 1))"
    using sl pp c4 by simp
  have a6: "position ex_long_state = 1 \<and> entry_price ex_long_state = Fin 100
          \<and> STOP_LOSS_PERCENT default_params = Fin 1
          \<and> (\<forall>r \<in> set [ex_hold_row, ex_skipped_row]. outside_hours (timestamp r) \<or>
                \<not> (fle (pnl_percent_of (close r) (entry_price ex_long_state)
                          (position ex_long_state))
                       (fneg (STOP_LOSS_PERCENT default_params))
                    \<or> fge (pnl_percent_of (close r) (entry_price ex_long_state)
                            (position ex_long_state))
                         (TAKE_PROFIT_PERCENT default_params)))
          \<and> \<not> outside_hours (timestamp ex_stop_row)
          \<and> close ex_stop_row = Fin 98.5 \<and> (98.5::real) \<le> 99"
    using a2 a3 a5 by blast
  from stop_loss_take_profit_exit
      [where st = ex_long_state and et = "stamp 1 10 15"
        and p = default_params and row = ex_stop_row
        and pre = "[ex_hold_row, ex_skipped_row]" and c' = "98.5", OF h,
       THEN conjunct2, THEN conjunct2, THEN conjunct2, THEN conjunct2, THEN conjunct2,
       THEN conjunct2] a6
  obtain st2 where
    t1: "bar_loop default_params ex_long_state ([ex_hold_row, ex_skipped_row] @ [ex_stop_row])
           = Inr st2"
    and t2: "trades st2 = trades ex_long_state @
        [\<lparr>t_entry_time = stamp 1 10 15, exit_time = timestamp ex_stop_row,
          t_entry_price = Fin 100, exit_price = Fin 98.5, t_position = ''LONG'',
          pnl = rmul (rsub (Fin 98.5) (Fin 100)) (Fin 1),
          pnl_percent = pnl_percent_of (Fin 98.5) (Fin 100) 1,
          exit_reason = ''SL''\<rparr>]"
    by blast
  from t1 stopped_example have eq2: "st2 = ex_stopped_state" by simp
  have c6: "exit_reason (last (trades ex_stopped_state)) = ''SL''"
    and c7: "exit_price (last (trades ex_stopped_state)) = Fin 98.5"
    and c8: "exit_time (last (trades ex_stopped_state)) = stamp 2 10 0"
    using t2 eq2 by (simp_all add: ex_stop_row_def ex_row_def)
  from h f stop hold boundary skipped stopped_example c1 c2 c3 c4 c5 c6 c7 c8
  show ?thesis by blast
qed

subsection \<open>The run returns\<close>

text \<open>
  C7, as the specification states it, at a concrete input: on a table whose second candle
  has a NaN close and whose third candle is dated before the second, the run fails at
  nothing: it returns, with one equity point for each of the three candles.
\<close>

theorem run_backtest_malformed_counterexample:
  "close (ex_malformed ! 1) = NaN
   \<and> ordinal (timestamp (ex_malformed ! 2)) < ordinal (timestamp (ex_malformed ! 1))
   \<and> run_backtest default_params [] ex_malformed = Inr ex_malformed_result
   \<and> length (equity_curve ex_malformed_result) = 3"
  using malformed_example
  by (simp add: ex_malformed_def ex_malformed_result_def ex_row_def stamp_def)

text \<open>
  C7, amended: the run never fails on a table that has at least one candle, whatever the
  timestamps and prices are, also when they are not in order or NaN: it checks neither and
  returns a result. Only an empty table makes it raise (an \<open>IndexError\<close>, before the loop).
\<close>

theorem run_backtest_never_fails:
  "(price_data \<noteq> [] \<longrightarrow> (\<exists>st. run_backtest p trades0 price_data = Inr st))
   \<and> run_backtest p trades0 [] = Inl IndexError"
proof (cases price_data)
  case Nil
  then show ?thesis by (simp add: run_backtest_def)
next
  case (Cons r rest)
  from bar_loop_total [OF initial_state_bound, of p trades0 r rest] obtain st
    where s: "bar_loop p (initial_state trades0 r) rest = Inr st" "entry_bound st" by blast
  from close_at_end_total [OF s(2), of "r # rest"] s(1) Cons show ?thesis
    by (auto simp: run_backtest_def)
qed

theorem run_backtest_never_fails_witness:
  "ex_nan_end \<noteq> [] \<and> (\<exists>st. run_backtest default_params [] ex_nan_end = Inr st)
   \<and> run_backtest default_params [] [] = Inl IndexError"
proof -
  have a: "ex_nan_end \<noteq> []" by (simp add: ex_nan_end_def)
  from run_backtest_never_fails [of ex_nan_end default_params "[]"] a
  show ?thesis by blast
qed


subsection \<open>One position at a time, one trade for each cycle\<close>

lemma cycles_from_flat_end: "cycles_from b [0] = (if b then 1 else 0)"
  by (cases b) simp_all

lemma trace_cycles:
  assumes "entry_bound st" and "bar_loop p st rows = Inr st'"
  shows "length (trades st') + (if position st' \<noteq> 0 then 1 else 0) =
         length (trades st) + cycles_from (position st \<noteq> 0) (position_trace p st rows @ [0])"
  using assms
proof (induction rows arbitrary: st)
  case Nil
  then show ?case by (simp add: cycles_from_flat_end)
next
  case (Cons row rows)
  show ?case
  proof (cases "outside_hours (timestamp row)")
    case True
    with Cons.prems have "bar_loop p st rows = Inr st'" by (simp add: process_bar_def)
    from Cons.IH [OF Cons.prems(1) this] True show ?thesis by simp
  next
    case False
    from process_exit_total [OF Cons.prems(1), of p row] obtain st1
      where s1: "process_exit p row st = Inr st1" "entry_bound st1"
        "position st1 = position st \<or> position st1 = 0"
        "length (trades st1)
           = length (trades st) + (if position st1 = position st then 0 else 1)"
      by blast
    define st2 where "st2 = process_entry (check_strategy_signal p row) row st1"
    define st3 where "st3 = update_equity row st2"
    have b3: "entry_bound st3"
      unfolding st3_def st2_def using s1(2)
      by (simp add: update_equity_bound process_entry_bound)
    have loop: "bar_loop p st3 rows = Inr st'"
      using Cons.prems(2) False s1(1) by (simp add: process_bar_def st3_def st2_def)
    have ih: "length (trades st') + (if position st' \<noteq> 0 then 1 else 0) =
         length (trades st3)
           + cycles_from (position st3 \<noteq> 0) (position_trace p st3 rows @ [0])"
      by (rule Cons.IH [OF b3 loop])
    have tr: "position_trace p st (row # rows)
                = position st1 # position st2 # position_trace p st3 rows"
      using False s1(1) by (simp add: st3_def st2_def)
    have t3: "trades st3 = trades st1" "position st3 = position st2"
      by (simp_all add: st3_def st2_def update_equity_fields process_entry_fields)
    have p2: "position st1 \<noteq> 0 \<Longrightarrow> position st2 = position st1"
      by (simp add: st2_def process_entry_fields)
    show ?thesis
    proof (cases "position st1 = 0")
      case True
      then show ?thesis using ih tr t3 s1(4) by (cases "position st = 0") auto
    next
      case nz: False
      with s1(3) have "position st1 = position st" by simp
      with nz show ?thesis using ih tr t3 s1(4) p2 by auto
    qed
  qed
qed

lemma trace_range:
  "entry_bound st \<Longrightarrow> set (position_trace p st rows) \<subseteq> {- 1, 0, 1}"
proof (induction rows arbitrary: st)
  case Nil
  then show ?case by simp
next
  case (Cons row rows)
  from process_exit_total [OF Cons.prems, of p row] obtain st1
    where s1: "process_exit p row st = Inr st1" "entry_bound st1" by blast
  define st2 where "st2 = process_entry (check_strategy_signal p row) row st1"
  have b2: "entry_bound st2" unfolding st2_def by (rule process_entry_bound [OF s1(2)])
  have b3: "entry_bound (update_equity row st2)" by (rule update_equity_bound [OF b2])
  from Cons.IH [OF b3] Cons.IH [OF Cons.prems] s1 b2 show ?case
    by (auto simp: st2_def [symmetric] entry_bound_def)
qed

lemma trace_through_flat:
  "entry_bound st \<Longrightarrow> only_through_flat (position st # position_trace p st rows @ [0])"
proof (induction rows arbitrary: st)
  case Nil
  then show ?case by simp
next
  case (Cons row rows)
  show ?case
  proof (cases "outside_hours (timestamp row)")
    case True
    with Cons.IH [OF Cons.prems] show ?thesis by simp
  next
    case False
    from process_exit_total [OF Cons.prems, of p row] obtain st1
      where s1: "process_exit p row st = Inr st1" "entry_bound st1"
        "position st1 = position st \<or> position st1 = 0" by blast
    define st2 where "st2 = process_entry (check_strategy_signal p row) row st1"
    have b2: "entry_bound st2" unfolding st2_def by (rule process_entry_bound [OF s1(2)])
    have b3: "entry_bound (update_equity row st2)" by (rule update_equity_bound [OF b2])
    have p2: "position st2 = position st1 \<or> position st1 = 0"
      by (auto simp: st2_def process_entry_def)
    from Cons.IH [OF b3] False s1 p2 show ?thesis
      by (auto simp: st2_def [symmetric] update_equity_fields)
  qed
qed

text \<open>
  C8: in a run on a fresh backtester, every value the position takes, after the exit block
  and after the entry block of every bar, is one of 0 (flat), 1 (long) and \<open>-1\<close> (short), so
  at most one position is open; the position never goes from long to short or back without
  being flat in between, so a position is opened only from flat; and the number of trades
  recorded by the run equals the number of completed flat, not flat, flat cycles of that
  sequence, the close after the loop completing the last one.
\<close>

theorem single_position_cycles:
  assumes "run_backtest p [] price_data = Inr st"
  shows "set (position_states p price_data) \<subseteq> {- 1, 0, 1}
       \<and> only_through_flat (position_states p price_data)
       \<and> length (trades st) = cycles_from False (position_states p price_data)"
proof (cases price_data)
  case Nil
  with assms show ?thesis by (simp add: run_backtest_def)
next
  case (Cons r rest)
  from bar_loop_total [OF initial_state_bound, of p "[]" r rest] obtain s
    where s: "bar_loop p (initial_state [] r) rest = Inr s" "entry_bound s" by blast
  have c: "close_at_end price_data s = Inr st"
    using assms s(1) Cons by (simp add: run_backtest_def)
  have len: "length (trades st) = length (trades s) + (if position s \<noteq> 0 then 1 else 0)"
    using c by (auto simp: close_at_end_def Let_def split: if_splits option.splits)
  have cyc: "length (trades s) + (if position s \<noteq> 0 then 1 else 0) =
       cycles_from False (position_trace p (initial_state [] r) rest @ [0])"
    using trace_cycles [OF initial_state_bound s(1)] by (simp add: initial_state_def)
  have rng: "set (position_trace p (initial_state [] r) rest) \<subseteq> {- 1, 0, 1}"
    by (rule trace_range [OF initial_state_bound])
  have flat: "only_through_flat (0 # position_trace p (initial_state [] r) rest @ [0])"
    using trace_through_flat [OF initial_state_bound, of "[]" r p rest]
    by (simp add: initial_state_def)
  show ?thesis using len cyc rng flat Cons by (simp add: position_states_def)
qed

theorem single_position_cycles_witness:
  "run_backtest default_params [] ex_two_cycles = Inr ex_two_cycles_result
   \<and> position_states default_params ex_two_cycles = [0, 0, 1, 0, - 1, 0]
   \<and> set [0, 0, 1, 0, - 1, 0] \<subseteq> {- 1, 0, 1 :: int}
   \<and> only_through_flat [0, 0, 1, 0, - 1, 0]
   \<and> length (trades ex_two_cycles_result) = 2
   \<and> cycles_from False [0, 0, 1, 0, - 1, 0] = 2"
proof -
  have len: "length (trades ex_two_cycles_result) = 2"
    by (simp add: ex_two_cycles_result_def)
  from single_position_cycles [OF two_cycles_example] two_cycles_states len
  have "set [0, 0, 1, 0, - 1, 0] \<subseteq> {- 1, 0, 1 :: int}
       \<and> only_through_flat [0, 0, 1, 0, - 1, 0]
       \<and> 2 = cycles_from False [0, 0, 1, 0, - 1, 0]"
    by metis
  with two_cycles_example two_cycles_states len show ?thesis by metis
qed

subsection \<open>The close after the loop\<close>

text \<open>
  C9: if a position is open when the loop ends, the run closes it at the close of the last
  candle of the table and at that candle's timestamp, with the exit reason \<open>END\<close>, whether
  or not the loop evaluated that candle; the equity curve stays as the loop left it. So the
  last equity point can differ from the final capital: on three candles with a long entry at
  100 and a last candle after the hours that closes at 105, the trade exits at 105, the last
  equity point is 100000 and the final capital is 100005.
\<close>

theorem forced_close_at_last_candle:
  "(bar_loop p (initial_state trades0 first_row) rest = Inr st \<and> position st \<noteq> 0 \<longrightarrow>
      (\<exists>et. entry_time st = Some et \<and>
        run_backtest p trades0 (first_row # rest) =
          Inr (st\<lparr>capital :=
                     radd (capital st)
                       (trade_pnl_of (close (last (first_row # rest))) (entry_price st)
                          (position st)),
                  trades := trades st @
                    [\<lparr>t_entry_time = et, exit_time = timestamp (last (first_row # rest)),
                      t_entry_price = entry_price st,
                      exit_price = close (last (first_row # rest)),
                      t_position = side (position st),
                      pnl = trade_pnl_of (close (last (first_row # rest))) (entry_price st)
                              (position st),
                      pnl_percent =
                        pnl_percent_of (close (last (first_row # rest))) (entry_price st)
                          (position st),
                      exit_reason = ''END''\<rparr>]\<rparr>)))
   \<and> outside_hours (timestamp (last ex_open_at_end))
   \<and> run_backtest default_params [] ex_open_at_end = Inr ex_open_at_end_result
   \<and> exit_price (last (trades ex_open_at_end_result)) = close (last ex_open_at_end)
   \<and> equity (last (equity_curve ex_open_at_end_result)) = Fin 100000
   \<and> capital ex_open_at_end_result = Fin 100005"
proof (intro conjI impI)
  assume a: "bar_loop p (initial_state trades0 first_row) rest = Inr st \<and> position st \<noteq> 0"
  from bar_loop_total [OF initial_state_bound, of p trades0 first_row rest] a
  have "entry_bound st" by simp
  with a obtain et where et: "entry_time st = Some et" by (auto simp: entry_bound_def)
  with a show "\<exists>et. entry_time st = Some et \<and>
        run_backtest p trades0 (first_row # rest) =
          Inr (st\<lparr>capital :=
                     radd (capital st)
                       (trade_pnl_of (close (last (first_row # rest))) (entry_price st)
                          (position st)),
                  trades := trades st @
                    [\<lparr>t_entry_time = et, exit_time = timestamp (last (first_row # rest)),
                      t_entry_price = entry_price st,
                      exit_price = close (last (first_row # rest)),
                      t_position = side (position st),
                      pnl = trade_pnl_of (close (last (first_row # rest))) (entry_price st)
                              (position st),
                      pnl_percent =
                        pnl_percent_of (close (last (first_row # rest))) (entry_price st)
                          (position st),
                      exit_reason = ''END''\<rparr>]\<rparr>)"
    by (simp add: run_backtest_def close_at_end_def Let_def)
next
  show "outside_hours (timestamp (last ex_open_at_end))"
    by (simp add: ex_open_at_end_def ex_row_def time_defs)
  show "run_backtest default_params [] ex_open_at_end = Inr ex_open_at_end_result"
    by (rule open_at_end_example)
  show "exit_price (last (trades ex_open_at_end_result)) = close (last ex_open_at_end)"
    by (simp add: ex_open_at_end_def ex_open_at_end_result_def ex_row_def)
  show "equity (last (equity_curve ex_open_at_end_result)) = Fin 100000"
    by (simp add: ex_open_at_end_result_def ex_open_at_end_loop_def)
  show "capital ex_open_at_end_result = Fin 100005"
    by (simp add: ex_open_at_end_result_def)
qed

theorem forced_close_at_last_candle_witness:
  "bar_loop default_params (initial_state [] (ex_row (stamp 1 10 0) (Fin 100) 50 100))
     [ex_long_row, ex_row (stamp 1 15 45) (Fin 105) 50 100] = Inr ex_open_at_end_loop
   \<and> position ex_open_at_end_loop \<noteq> 0
   \<and> outside_hours (stamp 1 15 45)
   \<and> run_backtest default_params []
       [ex_row (stamp 1 10 0) (Fin 100) 50 100, ex_long_row,
        ex_row (stamp 1 15 45) (Fin 105) 50 100]
      = Inr (ex_open_at_end_loop
               \<lparr>capital := Fin 100005,
                trades := [\<lparr>t_entry_time = stamp 1 10 15, exit_time = stamp 1 15 45,
                            t_entry_price = Fin 100, exit_price = Fin 105,
                            t_position = ''LONG'', pnl = Fin 5,
                            pnl_percent = Fin (5629499534213125 / 1125899906842624),
                            exit_reason = ''END''\<rparr>]\<rparr>)"
proof -
  have h: "position ex_open_at_end_loop \<noteq> 0"
    by (simp add: ex_open_at_end_loop_def)
  have o: "outside_hours (stamp 1 15 45)"
    by (simp add: time_defs)
  from forced_close_at_last_candle
    [of default_params "[]" "ex_row (stamp 1 10 0) (Fin 100) 50 100"
      "[ex_long_row, ex_row (stamp 1 15 45) (Fin 105) 50 100]" ex_open_at_end_loop]
    open_at_end_loop_example h
  obtain et where et: "entry_time ex_open_at_end_loop = Some et"
    and run: "run_backtest default_params []
       (ex_row (stamp 1 10 0) (Fin 100) 50 100
        # [ex_long_row, ex_row (stamp 1 15 45) (Fin 105) 50 100]) =
          Inr (ex_open_at_end_loop\<lparr>capital :=
                     radd (capital ex_open_at_end_loop)
                       (trade_pnl_of
                          (close (last (ex_row (stamp 1 10 0) (Fin 100) 50 100
                             # [ex_long_row, ex_row (stamp 1 15 45) (Fin 105) 50 100])))
                          (entry_price ex_open_at_end_loop) (position ex_open_at_end_loop)),
                  trades := trades ex_open_at_end_loop @
                    [\<lparr>t_entry_time = et,
                      exit_time = timestamp (last (ex_row (stamp 1 10 0) (Fin 100) 50 100
                             # [ex_long_row, ex_row (stamp 1 15 45) (Fin 105) 50 100])),
                      t_entry_price = entry_price ex_open_at_end_loop,
                      exit_price = close (last (ex_row (stamp 1 10 0) (Fin 100) 50 100
                             # [ex_long_row, ex_row (stamp 1 15 45) (Fin 105) 50 100])),
                      t_position = side (position ex_open_at_end_loop),
                      pnl = trade_pnl_of
                          (close (last (ex_row (stamp 1 10 0) (Fin 100) 50 100
                             # [ex_long_row, ex_row (stamp 1 15 45) (Fin 105) 50 100])))
                          (entry_price ex_open_at_end_loop) (position ex_open_at_end_loop),
                      pnl_percent = pnl_percent_of
                          (close (last (ex_row (stamp 1 10 0) (Fin 100) 50 100
                             # [ex_long_row, ex_row (stamp 1 15 45) (Fin 105) 50 100])))
                          (entry_price ex_open_at_end_loop) (position ex_open_at_end_loop),
                      exit_reason = ''END''\<rparr>]\<rparr>)"
    by blast
  from et have et': "et = stamp 1 10 15" by (simp add: ex_open_at_end_loop_def)
  from run et' have "run_backtest default_params []
       [ex_row (stamp 1 10 0) (Fin 100) 50 100, ex_long_row,
        ex_row (stamp 1 15 45) (Fin 105) 50 100]
      = Inr (ex_open_at_end_loop
               \<lparr>capital := Fin 100005,
                trades := [\<lparr>t_entry_time = stamp 1 10 15, exit_time = stamp 1 15 45,
                            t_entry_price = Fin 100, exit_price = Fin 105,
                            t_position = ''LONG'', pnl = Fin 5,
                            pnl_percent = Fin (5629499534213125 / 1125899906842624),
                            exit_reason = ''END''\<rparr>]\<rparr>)"
    by (simp add: ex_open_at_end_loop_def ex_row_def trade_pnl_of_def pnl_percent_of_def
        side_def fsub_def radd_def rsub_def rmul_def rdiv_def round64_values)
  with open_at_end_loop_example h o show ?thesis by blast
qed


section \<open>Performance metrics\<close>

subsection \<open>Winning and losing trades\<close>

lemma positive_or_not: "x \<noteq> NaN \<Longrightarrow> fgt x (Fin 0) \<noteq> fle x (Fin 0)"
  by (cases x) (auto simp: fgt_def)

text \<open>
  C10, as the specification states it, at a concrete input: on three candles with a long
  entry and a last candle whose close is NaN, the run records one trade, closed after the
  loop with a NaN P and L; it counts neither as winning nor as losing, so the two counts sum
  to 0 and the total is 1.
\<close>

theorem win_loss_sum_counterexample:
  "run_backtest default_params [] ex_nan_end = Inr ex_nan_end_result
   \<and> winning_trades (trades ex_nan_end_result) + losing_trades (trades ex_nan_end_result) = 0
   \<and> total_trades (trades ex_nan_end_result) = 1"
  using nan_end_example
  by (simp add: winning_trades_def losing_trades_def total_trades_def ex_nan_end_result_def
      fgt_def)

text \<open>
  C10, amended: a trade counts as winning if and only if its P and L is above 0 and as
  losing if and only if it is at most 0, so a trade with a P and L of exactly 0 is a losing
  one; the two counts sum to the total whenever no trade has a NaN P and L (such a trade
  counts as neither).
\<close>

theorem win_loss_classification:
  "winning_trades [t] = (if fgt (pnl t) (Fin 0) then 1 else 0)
   \<and> losing_trades [t] = (if fle (pnl t) (Fin 0) then 1 else 0)
   \<and> (pnl t = Fin 0 \<longrightarrow> winning_trades [t] = 0 \<and> losing_trades [t] = 1)
   \<and> winning_trades (ts @ [t]) = winning_trades ts + winning_trades [t]
   \<and> losing_trades (ts @ [t]) = losing_trades ts + losing_trades [t]
   \<and> ((\<forall>t \<in> set ts. pnl t \<noteq> NaN) \<longrightarrow>
        winning_trades ts + losing_trades ts = total_trades ts)"
proof -
  have "(\<forall>t \<in> set ts. pnl t \<noteq> NaN) \<longrightarrow>
          length (filter (\<lambda>t. fgt (pnl t) (Fin 0)) ts)
          + length (filter (\<lambda>t. fle (pnl t) (Fin 0)) ts) = length ts"
  proof (induction ts)
    case Nil
    then show ?case by simp
  next
    case (Cons a ts)
    show ?case using Cons.IH positive_or_not [of "pnl a"] by auto
  qed
  then show ?thesis
    by (simp add: winning_trades_def losing_trades_def total_trades_def fgt_def)
qed

theorem win_loss_classification_witness:
  "pnl ex_flat_trade = Fin 0
   \<and> winning_trades [ex_flat_trade] = 0 \<and> losing_trades [ex_flat_trade] = 1
   \<and> map pnl (trades ex_two_cycles_result) = [Fin (- 2), Fin 1]
   \<and> winning_trades (trades ex_two_cycles_result) + losing_trades (trades ex_two_cycles_result)
       = total_trades (trades ex_two_cycles_result)"
proof -
  have a: "pnl ex_flat_trade = Fin 0"
    by (simp add: ex_flat_trade_def)
  have m: "map pnl (trades ex_two_cycles_result) = [Fin (- 2), Fin 1]"
    by (simp add: ex_two_cycles_result_def)
  have b: "\<forall>t \<in> set (trades ex_two_cycles_result). pnl t \<noteq> NaN"
    by (simp add: ex_two_cycles_result_def)
  from win_loss_classification [of ex_flat_trade "trades ex_two_cycles_result"] a b m
  show ?thesis by blast
qed

subsection \<open>The Sharpe ratio\<close>

text \<open>
  C5: the ratio is \<open>sqrt 252 * mean / std\<close> of the percentage changes, and it is 0 for a
  curve of fewer than two points; but on an equity curve that does not move (three points of
  100000, as after a run without a trade) the returns are all 0, their standard deviation is
  0, and the code divides 0 by 0: the ratio is NaN, not 0.
\<close>

theorem sharpe_flat_equity_is_nan:
  "sharpe_ratio [100000, 100000, 100000] = NaN
   \<and> sharpe_ratio [100000] = Fin 0
   \<and> sharpe_ratio [] = Fin 0"
  by (simp add: sharpe_ratio_def dropna_def fmean_def fstd_def fsum_def float_defs Let_def)

section \<open>The RSI\<close>


















end
